theory Spec2Isabelle
  imports Complex_Main "HOL-Library.Word"
begin

section \<open>Common data model (package dia)\<close>

text \<open>
  Go values are modelled as follows.  A \<^verbatim>\<open>float64\<close> is a value of the type
  parameter \<open>'f\<close>: the development never looks inside a float, it only moves it
  around, compares it with zero through a parameter, or divides through a parameter.
  A \<^verbatim>\<open>time.Time\<close> is the number of seconds since the Unix epoch.  A
  \<^verbatim>\<open>common.Address\<close> is the 160-bit number it holds; \<^verbatim>\<open>Hex()\<close> is
  injective, so comparing the hex strings is comparing the numbers.  A Go
  \<^verbatim>\<open>error\<close> is its message.  A run-time panic is a value of type \<open>panic\<close>.
\<close>

type_synonym go_time = int
type_synonym address = "160 word"
type_synonym go_error = string

datatype panic = NilDereference | IndexOutOfRange | CloseOfClosedChannel

record Asset =
  Symbol :: string
  Name :: string
  Address :: address
  Decimals :: nat
  Blockchain :: string

record Pair =
  QuoteToken :: Asset
  BaseToken :: Asset

record ExchangePair =
  EPSymbol :: string
  ForeignName :: string
  Exchange :: string
  Verified :: bool
  UnderlyingPair :: Pair

record 'f Trade =
  TSymbol :: string
  TPair :: string
  Price :: 'f
  Volume :: 'f
  TTime :: go_time
  ForeignTradeID :: string
  Source :: string
  VerifiedPair :: bool
  TBaseToken :: Asset
  TQuoteToken :: Asset

record 'f FilterPoint =
  FPAsset :: Asset
  Value :: 'f
  FPName :: string
  Time :: go_time
  FirstTrade :: "'f Trade"
  LastTrade :: "'f Trade"

text \<open>The zero values Go gives to a freshly allocated struct.\<close>

definition zeroTime :: go_time where
  "zeroTime = - 62135596800"

definition zeroAsset :: Asset where
  "zeroAsset = \<lparr>Symbol = [], Name = [], Address = 0, Decimals = 0, Blockchain = []\<rparr>"

definition zeroTrade :: "('f::zero) Trade" where
  "zeroTrade = \<lparr>TSymbol = [], TPair = [], Price = 0, Volume = 0, TTime = zeroTime,
     ForeignTradeID = [], Source = [], VerifiedPair = False,
     TBaseToken = zeroAsset, TQuoteToken = zeroAsset\<rparr>"

definition zeroFilterPoint :: "('f::zero) FilterPoint" where
  "zeroFilterPoint = \<lparr>FPAsset = zeroAsset, Value = 0, FPName = [], Time = zeroTime,
     FirstTrade = zeroTrade, LastTrade = zeroTrade\<rparr>"

section \<open>Aggregation filters (queryhelper/filters.go)\<close>

record 'f Block =
  TimeStamp :: int
  Trades :: "'f Trade list"

text \<open>
  \<^verbatim>\<open>time.Unix(block.TimeStamp/1e9, 0)\<close>: the block's nanosecond stamp in seconds.
  Go's integer division truncates towards zero.
\<close>

definition blockTime :: "int \<Rightarrow> go_time" where
  "blockTime ts = sgn ts * (\<bar>ts\<bar> div 1000000000)"

text \<open>
  The filter objects live in package \<^verbatim>\<open>filtersBlockService\<close>, which is not part of
  the sources at hand.  Their four operations are parameters: the constructor, the fold
  step \<^verbatim>\<open>Compute\<close>, \<^verbatim>\<open>FinalCompute\<close> and
  \<^verbatim>\<open>FilterPointForBlock\<close>, whose result is a pointer and hence may be nil.
\<close>

record ('s, 'f) filter_ops =
  newFilter :: "Asset \<Rightarrow> string \<Rightarrow> go_time \<Rightarrow> int \<Rightarrow> 's"
  compute :: "'s \<Rightarrow> 'f Trade \<Rightarrow> 's"
  finalCompute :: "'s \<Rightarrow> go_time \<Rightarrow> 's"
  filterPointForBlock :: "'s \<Rightarrow> 'f FilterPoint option"

text \<open>
  The loop state of every filter function: the points appended so far, the struct
  \<^verbatim>\<open>lastfp\<close> points to (\<open>None\<close> for a nil pointer), and the values handed to
  \<^verbatim>\<open>metadata.AddPoint\<close>.  \<^verbatim>\<open>append(filterPoints, *fp)\<close> copies the struct, so
  a later write through \<^verbatim>\<open>lastfp\<close> changes \<open>lastfp\<close> only.
\<close>

type_synonym 'f filter_state = "'f FilterPoint list \<times> 'f FilterPoint option \<times> 'f list"

text \<open>
  The part all price filters share for a block with trades: build the filter, fold the
  trades, finalise at time \<open>ft\<close>, read the point.
\<close>

definition runFilter ::
  "('s, 'f) filter_ops \<Rightarrow> Asset \<Rightarrow> int \<Rightarrow> 'f Block \<Rightarrow> go_time \<Rightarrow> 'f FilterPoint option" where
  "runFilter ops asset blockSize block ft =
     filterPointForBlock ops
       (finalCompute ops
          (foldl (compute ops) (newFilter ops asset [] (blockTime (TimeStamp block)) blockSize)
             (Trades block))
          ft)"

definition withTrades :: "'f Block \<Rightarrow> 'f FilterPoint \<Rightarrow> 'f FilterPoint" where
  "withTrades block fp = fp\<lparr>FirstTrade := hd (Trades block), LastTrade := last (Trades block)\<rparr>"

definition carry :: "'f Block \<Rightarrow> 'f FilterPoint \<Rightarrow> 'f filter_state \<Rightarrow> 'f filter_state" where
  "carry block l st =
     (case st of (fps, _, md) \<Rightarrow>
        let l' = l\<lparr>Time := blockTime (TimeStamp block)\<rparr> in (fps @ [l'], Some l', md))"

text \<open>
  \<^verbatim>\<open>FilterMA\<close>: \<^verbatim>\<open>lastfp\<close> starts as a pointer to a zero struct, and the point of a
  block with trades keeps the time the filter gave it.  The branch
  \<^verbatim>\<open>else if lastfp != nil\<close> is dead: \<^verbatim>\<open>fp.Value\<close> was read before.
\<close>

definition FilterMA_step ::
  "('s, 'f) filter_ops \<Rightarrow> Asset \<Rightarrow> int \<Rightarrow> 'f filter_state \<Rightarrow> 'f Block \<Rightarrow> panic + 'f filter_state" where
  "FilterMA_step ops asset blockSize st block =
     (case st of (fps, lastfp, md) \<Rightarrow>
        if length (Trades block) > 0 then
          (case runFilter ops asset blockSize block (blockTime (TimeStamp block)) of
             None \<Rightarrow> Inl NilDereference
           | Some fp \<Rightarrow>
               let fp' = withTrades block fp in Inr (fps @ [fp'], Some fp', md @ [Value fp]))
        else
          (case lastfp of
             None \<Rightarrow> Inl NilDereference
           | Some l \<Rightarrow> Inr (carry block l st)))"

text \<open>
  \<^verbatim>\<open>FilterMAIR\<close> and \<^verbatim>\<open>FilterVWAP\<close>: \<^verbatim>\<open>var lastfp *dia.FilterPoint\<close> is nil
  at the start, and the branch for a block without trades writes through it unguarded.
  \<^verbatim>\<open>FilterVWAP\<close> finalises at the first trade's time.
\<close>

definition FilterMAIR_step ::
  "('s, 'f) filter_ops \<Rightarrow> Asset \<Rightarrow> int \<Rightarrow> 'f filter_state \<Rightarrow> 'f Block \<Rightarrow> panic + 'f filter_state" where
  "FilterMAIR_step ops asset blockSize st block =
     (case st of (fps, lastfp, md) \<Rightarrow>
        if length (Trades block) > 0 then
          (case runFilter ops asset blockSize block (blockTime (TimeStamp block)) of
             None \<Rightarrow> Inl NilDereference
           | Some fp \<Rightarrow>
               let fp' = (withTrades block fp)\<lparr>Time := blockTime (TimeStamp block)\<rparr>
               in Inr (fps @ [fp'], Some fp', md @ [Value fp]))
        else
          (case lastfp of
             None \<Rightarrow> Inl NilDereference
           | Some l \<Rightarrow> Inr (carry block l st)))"

definition FilterVWAP_step ::
  "('s, 'f) filter_ops \<Rightarrow> Asset \<Rightarrow> int \<Rightarrow> 'f filter_state \<Rightarrow> 'f Block \<Rightarrow> panic + 'f filter_state" where
  "FilterVWAP_step ops asset blockSize st block =
     (case st of (fps, lastfp, md) \<Rightarrow>
        if length (Trades block) > 0 then
          (case runFilter ops asset blockSize block (TTime (hd (Trades block))) of
             None \<Rightarrow> Inl NilDereference
           | Some fp \<Rightarrow>
               let fp' = (withTrades block fp)\<lparr>Time := blockTime (TimeStamp block)\<rparr>
               in Inr (fps @ [fp'], Some fp', md @ [Value fp]))
        else
          (case lastfp of
             None \<Rightarrow> Inl NilDereference
           | Some l \<Rightarrow> Inr (carry block l st)))"

text \<open>
  \<^verbatim>\<open>FilterVWAPIR\<close> and \<^verbatim>\<open>FilterMEDIR\<close> have the same body: a point counts only
  when its value is positive (\<open>pos\<close> is the test \<^verbatim>\<open>fp.Value > 0\<close>), and every write
  through \<^verbatim>\<open>lastfp\<close> is guarded by \<^verbatim>\<open>lastfp != nil\<close>.
\<close>

definition FilterIR_step ::
  "('f \<Rightarrow> bool) \<Rightarrow> ('s, 'f) filter_ops \<Rightarrow> Asset \<Rightarrow> int \<Rightarrow> 'f filter_state \<Rightarrow> 'f Block
     \<Rightarrow> panic + 'f filter_state" where
  "FilterIR_step pos ops asset blockSize st block =
     (case st of (fps, lastfp, md) \<Rightarrow>
        if length (Trades block) > 0 then
          (case runFilter ops asset blockSize block (blockTime (TimeStamp block)) of
             None \<Rightarrow> Inl NilDereference
           | Some fp \<Rightarrow>
               if pos (Value fp) then
                 let fp' = (withTrades block fp)\<lparr>Time := blockTime (TimeStamp block)\<rparr>
                 in Inr (fps @ [fp'], Some fp', md @ [Value fp])
               else
                 (case lastfp of
                    None \<Rightarrow> Inr (fps, lastfp, md @ [Value fp])
                  | Some l \<Rightarrow> Inr (carry block l (fps, lastfp, md @ [Value fp]))))
        else
          (case lastfp of
             None \<Rightarrow> Inr st
           | Some l \<Rightarrow> Inr (carry block l st)))"

text \<open>\<^verbatim>\<open>for _, block := range tradeBlocks\<close>: a panic ends the loop.\<close>

fun overBlocks ::
  "('st \<Rightarrow> 'b \<Rightarrow> panic + 'st) \<Rightarrow> 'st \<Rightarrow> 'b list \<Rightarrow> panic + 'st" where
  "overBlocks step st [] = Inr st"
| "overBlocks step st (b # bs) =
     (case step st b of Inl p \<Rightarrow> Inl p | Inr st' \<Rightarrow> overBlocks step st' bs)"

text \<open>What a filter function returns: the points and the metadata.\<close>

definition filterResult :: "panic + 'f filter_state \<Rightarrow> panic + ('f FilterPoint list \<times> 'f list)" where
  "filterResult r = (case r of Inl p \<Rightarrow> Inl p | Inr (fps, _, md) \<Rightarrow> Inr (fps, md))"

definition FilterMA ::
  "('s, 'f::zero) filter_ops \<Rightarrow> 'f Block list \<Rightarrow> Asset \<Rightarrow> int \<Rightarrow> panic + ('f FilterPoint list \<times> 'f list)" where
  "FilterMA ops tradeBlocks asset blockSize =
     filterResult (overBlocks (FilterMA_step ops asset blockSize) ([], Some zeroFilterPoint, []) tradeBlocks)"

definition FilterMAIR ::
  "('s, 'f) filter_ops \<Rightarrow> 'f Block list \<Rightarrow> Asset \<Rightarrow> int \<Rightarrow> panic + ('f FilterPoint list \<times> 'f list)" where
  "FilterMAIR ops tradeBlocks asset blockSize =
     filterResult (overBlocks (FilterMAIR_step ops asset blockSize) ([], None, []) tradeBlocks)"

definition FilterVWAP ::
  "('s, 'f) filter_ops \<Rightarrow> 'f Block list \<Rightarrow> Asset \<Rightarrow> int \<Rightarrow> panic + ('f FilterPoint list \<times> 'f list)" where
  "FilterVWAP ops tradeBlocks asset blockSize =
     filterResult (overBlocks (FilterVWAP_step ops asset blockSize) ([], None, []) tradeBlocks)"

definition FilterVWAPIR ::
  "('f \<Rightarrow> bool) \<Rightarrow> ('s, 'f) filter_ops \<Rightarrow> 'f Block list \<Rightarrow> Asset \<Rightarrow> int
     \<Rightarrow> panic + ('f FilterPoint list \<times> 'f list)" where
  "FilterVWAPIR pos ops tradeBlocks asset blockSize =
     filterResult (overBlocks (FilterIR_step pos ops asset blockSize) ([], None, []) tradeBlocks)"

definition FilterMEDIR ::
  "('f \<Rightarrow> bool) \<Rightarrow> ('s, 'f) filter_ops \<Rightarrow> 'f Block list \<Rightarrow> Asset \<Rightarrow> int
     \<Rightarrow> panic + ('f FilterPoint list \<times> 'f list)" where
  "FilterMEDIR pos ops tradeBlocks asset blockSize =
     filterResult (overBlocks (FilterIR_step pos ops asset blockSize) ([], None, []) tradeBlocks)"

text \<open>
  Modelled from the spec: the VWAP filter object of package \<^verbatim>\<open>filtersBlockService\<close>
  (not among the sources), "VWAP: volume-weighted average price", over exact numbers.
  It serves as a concrete instance of \<open>filter_ops\<close> to run the filter functions on.
\<close>

definition vwapOps :: "(real \<times> real \<times> real \<times> go_time \<times> Asset, real) filter_ops" where
  "vwapOps = \<lparr>
     newFilter = (\<lambda>asset exchange t blockSize. (0, 0, 0, t, asset)),
     compute = (\<lambda>s trade. case s of (pv, v, val, t, a) \<Rightarrow>
        (pv + Price trade * \<bar>Volume trade\<bar>, v + \<bar>Volume trade\<bar>, val, t, a)),
     finalCompute = (\<lambda>s t'. case s of (pv, v, val, t, a) \<Rightarrow> (pv, v, pv / v, t', a)),
     filterPointForBlock = (\<lambda>s. case s of (pv, v, val, t, a) \<Rightarrow>
        Some \<lparr>FPAsset = a, Value = val, FPName = ''VWAP'', Time = t,
          FirstTrade = zeroTrade, LastTrade = zeroTrade\<rparr>)\<rparr>"

definition mkTrade :: "real \<Rightarrow> real \<Rightarrow> go_time \<Rightarrow> real Trade" where
  "mkTrade p v t = zeroTrade\<lparr>Price := p, Volume := v, TTime := t\<rparr>"


section \<open>Bancor adapter (BancorScraper)\<close>

text \<open>
  The address literals of the source.  Each is written there in the checksummed
  spelling that \<^verbatim>\<open>Hex()\<close> prints, so \<^verbatim>\<open>a.Hex() == "0xEeee..."\<close> holds exactly
  when \<open>a\<close> is the address the literal denotes.
\<close>

definition nativeSentinel :: address where
  "nativeSentinel = 0xEeeeeEeeeEeEeeEeEeEeeEEEeeeeEeeeeeeeEEeE"

definition wethAddress :: address where
  "wethAddress = 0xC02aaA39b223FE8D0A0e5C4F27eAD9083C756Cc2"

definition bntAddress :: address where
  "bntAddress = 0x1F573D6Fb3F13d689FF844B4cE37794d79a7FF1C"

definition ETHEREUM :: string where
  "ETHEREUM = ''Ethereum''"

record BancorNetworkConversion =
  FromToken :: address
  ToToken :: address
  FromAmount :: int
  ToAmount :: int
  RawTxHash :: string

record 'f BancorSwap =
  SwapPair :: ExchangePair
  SwapFromAmount :: 'f
  SwapToAmount :: 'f
  SwapID :: string
  SwapTimestamp :: int

text \<open>
  The chain calls of the adapter, as parameters: \<^verbatim>\<open>Symbol\<close> and \<^verbatim>\<open>Decimals\<close> of
  the ERC-20 contract at an address.  A generated binding returns the zero value
  together with the error, which is what \<open>symbolOrEmpty\<close> reads.
\<close>

record erc20_calls =
  callSymbol :: "address \<Rightarrow> go_error + string"
  callDecimals :: "address \<Rightarrow> go_error + nat"

definition symbolOrEmpty :: "erc20_calls \<Rightarrow> address \<Rightarrow> string" where
  "symbolOrEmpty rpc a = (case callSymbol rpc a of Inl e \<Rightarrow> [] | Inr s \<Rightarrow> s)"

text \<open>
  \<^verbatim>\<open>GetPair\<close>.  The slice is indexed at 0 and 1, which panics on a shorter one.  Both
  sentinel branches assign to \<^verbatim>\<open>address[0]\<close>; the second test reads
  \<^verbatim>\<open>address[1]\<close>, which no branch has changed.  The tokens were bound to the
  addresses as passed in, so the symbol calls go to those.
\<close>

definition GetPair :: "erc20_calls \<Rightarrow> string \<Rightarrow> address list \<Rightarrow> panic + ExchangePair" where
  "GetPair rpc exchangeName addrs =
     (if length addrs < 2 then Inl IndexOutOfRange
      else
        let a0 = addrs ! 0; a1 = addrs ! 1;
            (addrs1, symbol0) =
               (if a0 = nativeSentinel then (addrs[0 := wethAddress], ''WETH'')
                else (addrs, symbolOrEmpty rpc a0));
            (addrs2, symbol1) =
               (if addrs1 ! 1 = nativeSentinel then (addrs1[0 := wethAddress], ''WETH'')
                else (addrs1, symbolOrEmpty rpc a1));
            basetoken = \<lparr>Symbol = symbol1, Name = [], Address = addrs2 ! 1, Decimals = 0,
                          Blockchain = ETHEREUM\<rparr>;
            quotetoken = \<lparr>Symbol = symbol0, Name = [], Address = addrs2 ! 0, Decimals = 0,
                           Blockchain = ETHEREUM\<rparr>
        in Inr \<lparr>EPSymbol = symbol0, ForeignName = symbol0 @ ''-'' @ symbol1,
                 Exchange = exchangeName, Verified = False,
                 UnderlyingPair = \<lparr>QuoteToken = quotetoken, BaseToken = basetoken\<rparr>\<rparr>)"

text \<open>
  \<^verbatim>\<open>NormalizePair\<close> compares the address strings of the two assets with the
  sentinel's literal.  An asset's address is kept here as the number its string
  denotes: the pairs the adapter normalizes come from \<^verbatim>\<open>GetPair\<close>, which writes the
  addresses with \<^verbatim>\<open>Hex()\<close>, and for those the comparison of the strings is the
  comparison of the numbers.  An address string in another spelling, all in lower case
  say, never equals the literal in the source; such a pair is outside this model.
\<close>

definition NormalizePair :: "ExchangePair \<Rightarrow> ExchangePair" where
  "NormalizePair pair =
     (let u = UnderlyingPair pair;
          u1 = (if Address (BaseToken u) = nativeSentinel
                then u\<lparr>BaseToken := (BaseToken u)\<lparr>Address := wethAddress\<rparr>\<rparr> else u);
          u2 = (if Address (QuoteToken u1) = nativeSentinel
                then u1\<lparr>QuoteToken := (QuoteToken u1)\<lparr>Address := wethAddress\<rparr>\<rparr> else u1)
      in pair\<lparr>UnderlyingPair := u2\<rparr>)"

text \<open>\<^verbatim>\<open>reverseBNTSwap\<close>: a swap out of BNT is turned around.\<close>

definition reverseBNTSwap :: "BancorNetworkConversion \<Rightarrow> BancorNetworkConversion" where
  "reverseBNTSwap rawSwap =
     (if FromToken rawSwap = bntAddress
      then \<lparr>FromToken = ToToken rawSwap, ToToken = FromToken rawSwap,
             FromAmount = ToAmount rawSwap, ToAmount = FromAmount rawSwap,
             RawTxHash = RawTxHash rawSwap\<rparr>
      else rawSwap)"

text \<open>
  \<^verbatim>\<open>normalizeSwap\<close>.  \<open>scale a d\<close> stands for the float64 nearest to
  \<open>a / 10 ^ d\<close>, as computed with \<^verbatim>\<open>big.Float\<close>; \<open>now\<close> is the clock.  An error of
  a decimals call returns the swap as filled so far.
\<close>

definition emptyExchangePair :: ExchangePair where
  "emptyExchangePair = \<lparr>EPSymbol = [], ForeignName = [], Exchange = [], Verified = False,
     UnderlyingPair = \<lparr>QuoteToken = zeroAsset, BaseToken = zeroAsset\<rparr>\<rparr>"

definition emptyBancorSwap :: "('f::zero) BancorSwap" where
  "emptyBancorSwap = \<lparr>SwapPair = emptyExchangePair, SwapFromAmount = 0, SwapToAmount = 0,
     SwapID = [], SwapTimestamp = 0\<rparr>"

definition sideAmount :: "(int \<Rightarrow> nat \<Rightarrow> 'f) \<Rightarrow> erc20_calls \<Rightarrow> address \<Rightarrow> int \<Rightarrow> go_error + 'f" where
  "sideAmount scale rpc token amount =
     (if token = nativeSentinel then Inr (scale amount 18)
      else (case callDecimals rpc token of
              Inl e \<Rightarrow> Inl e
            | Inr d \<Rightarrow> Inr (scale amount d)))"

definition normalizeSwap ::
  "(int \<Rightarrow> nat \<Rightarrow> 'f) \<Rightarrow> erc20_calls \<Rightarrow> string \<Rightarrow> int \<Rightarrow> BancorNetworkConversion
     \<Rightarrow> panic + (('f::zero) BancorSwap \<times> go_error option)" where
  "normalizeSwap scale rpc exchangeName now swap =
     (case sideAmount scale rpc (FromToken swap) (FromAmount swap) of
        Inl e \<Rightarrow> Inr (emptyBancorSwap, Some e)
      | Inr amount0 \<Rightarrow>
          (case sideAmount scale rpc (ToToken swap) (ToAmount swap) of
             Inl e \<Rightarrow> Inr (emptyBancorSwap\<lparr>SwapFromAmount := amount0\<rparr>, Some e)
           | Inr amount1 \<Rightarrow>
               (case GetPair rpc exchangeName [ToToken swap, FromToken swap] of
                  Inl p \<Rightarrow> Inl p
                | Inr pair \<Rightarrow>
                    Inr (\<lparr>SwapPair = NormalizePair pair, SwapFromAmount = amount0,
                          SwapToAmount = amount1, SwapID = RawTxHash swap,
                          SwapTimestamp = now\<rparr>, None))))"

text \<open>\<^verbatim>\<open>getSwapData\<close>; \<open>fdiv\<close> is float64 division.  The result is (price, volume).\<close>

definition getSwapData :: "('f \<Rightarrow> 'f \<Rightarrow> 'f) \<Rightarrow> 'f BancorSwap \<Rightarrow> 'f \<times> 'f" where
  "getSwapData fdiv swap =
     (let volume = SwapFromAmount swap;
          price = fdiv (SwapToAmount swap) (SwapFromAmount swap)
      in (price, volume))"

section \<open>Dforce adapter (DforceScraper)\<close>

record DforceSwap =
  Input :: address
  Output :: address
  InputAmount :: int
  OutputAmount :: int

text \<open>
  The token contract's calls.  \<^verbatim>\<open>Decimals\<close> returns a \<^verbatim>\<open>*big.Int\<close>, nil
  together with an error, and \<^verbatim>\<open>loadTokenData\<close> calls \<^verbatim>\<open>Int64\<close> on it whatever
  the error was.
\<close>

record token_calls =
  tokSymbol :: "address \<Rightarrow> go_error + string"
  tokDecimals :: "address \<Rightarrow> go_error + int"
  tokName :: "address \<Rightarrow> go_error + string"

text \<open>
  \<^verbatim>\<open>loadTokenData\<close>: the token cache \<^verbatim>\<open>scraper.tokens\<close> is passed in and returned.
  The error returned is that of the last call, \<^verbatim>\<open>Name\<close>.
\<close>

definition loadTokenData ::
  "token_calls \<Rightarrow> (address \<rightharpoonup> Asset) \<Rightarrow> address
     \<Rightarrow> panic + (Asset \<times> go_error option \<times> (address \<rightharpoonup> Asset))" where
  "loadTokenData rpc tokens tokenAddress =
     (case tokens tokenAddress of
        Some foundToken \<Rightarrow> Inr (foundToken, None, tokens)
      | None \<Rightarrow>
          (case tokDecimals rpc tokenAddress of
             Inl e \<Rightarrow> Inl NilDereference
           | Inr decimals \<Rightarrow>
               let dfToken = \<lparr>Symbol = (case tokSymbol rpc tokenAddress of Inl e \<Rightarrow> [] | Inr s \<Rightarrow> s),
                               Name = (case tokName rpc tokenAddress of Inl e \<Rightarrow> [] | Inr n \<Rightarrow> n),
                               Address = tokenAddress,
                               Decimals = nat (decimals mod 256),
                               Blockchain = ETHEREUM\<rparr>
               in Inr (dfToken,
                       (case tokName rpc tokenAddress of Inl e \<Rightarrow> Some e | Inr n \<Rightarrow> None),
                       tokens(tokenAddress \<mapsto> dfToken))))"

record 'f dforce_swap_data =
  dsSymbol :: string
  dsForeignName :: string
  dsVolume :: 'f
  dsPrice :: 'f
  dsBuyToken :: Asset
  dsSellToken :: Asset
  dsErr :: "go_error option"

text \<open>
  \<^verbatim>\<open>getSwapDataDforce\<close>: the bought token is the swap's output, the sold one its
  input.  The named result \<^verbatim>\<open>err\<close> ends up holding the second call's error.
\<close>

definition getSwapDataDforce ::
  "('f \<Rightarrow> 'f \<Rightarrow> 'f) \<Rightarrow> (int \<Rightarrow> nat \<Rightarrow> 'f) \<Rightarrow> token_calls \<Rightarrow> (address \<rightharpoonup> Asset) \<Rightarrow> DforceSwap
     \<Rightarrow> panic + ('f dforce_swap_data \<times> (address \<rightharpoonup> Asset))" where
  "getSwapDataDforce fdiv scale rpc tokens s =
     (case loadTokenData rpc tokens (Output s) of
        Inl p \<Rightarrow> Inl p
      | Inr (buyToken, err1, tokens1) \<Rightarrow>
          (case loadTokenData rpc tokens1 (Input s) of
             Inl p \<Rightarrow> Inl p
           | Inr (sellToken, err2, tokens2) \<Rightarrow>
               let buyDecimals = Decimals buyToken;
                   sellDecimals = Decimals sellToken;
                   amountOut = scale (OutputAmount s) buyDecimals;
                   amountIn = scale (InputAmount s) sellDecimals
               in Inr (\<lparr>dsSymbol = Symbol buyToken,
                         dsForeignName = Symbol buyToken @ ''-'' @ Symbol sellToken,
                         dsVolume = amountOut,
                         dsPrice = fdiv amountIn amountOut,
                         dsBuyToken = buyToken, dsSellToken = sellToken,
                         dsErr = err2\<rparr>, tokens2)))"

text \<open>
  The spec's price convention for a swap of \<open>from_amount\<close> into \<open>to_amount\<close>, as a
  predicate on the price and volume of the trade made from it.
\<close>

definition price_convention :: "('f \<Rightarrow> 'f \<Rightarrow> 'f) \<Rightarrow> 'f \<Rightarrow> 'f \<Rightarrow> 'f \<times> 'f \<Rightarrow> bool" where
  "price_convention fdiv from_amount to_amount pv \<longleftrightarrow>
     fst pv = fdiv to_amount from_amount \<and> snd pv = from_amount"

text \<open>Exact arithmetic in place of float64, to run the adapters on concrete swaps.\<close>

definition exactScale :: "int \<Rightarrow> nat \<Rightarrow> real" where
  "exactScale a d = real_of_int a / 10 ^ d"

definition exactDiv :: "real \<Rightarrow> real \<Rightarrow> real" where
  "exactDiv x y = x / y"

definition usdxAddress :: address where
  "usdxAddress = 0xeb269732ab75A6fD61Ea60b06fE994cD32a83549"

definition usdxAsset :: Asset where
  "usdxAsset = \<lparr>Symbol = ''USDx'', Name = [], Address = usdxAddress, Decimals = 18,
     Blockchain = ETHEREUM\<rparr>"

definition usdcAddress :: address where
  "usdcAddress = 0xA0b86991c6218b36c1d19D4a2e9Eb0cE3606eB48"

definition usdcAsset :: Asset where
  "usdcAsset = \<lparr>Symbol = ''USDC'', Name = ''USD Coin'', Address = usdcAddress, Decimals = 6,
     Blockchain = ETHEREUM\<rparr>"

definition noTokenCalls :: token_calls where
  "noTokenCalls = \<lparr>tokSymbol = (\<lambda>a. Inl ''no connection''),
     tokDecimals = (\<lambda>a. Inl ''no connection''), tokName = (\<lambda>a. Inl ''no connection'')\<rparr>"

definition dforceTokens :: "address \<rightharpoonup> Asset" where
  "dforceTokens = [usdxAddress \<mapsto> usdxAsset, usdcAddress \<mapsto> usdcAsset]"

definition dforceSwapExample :: DforceSwap where
  "dforceSwapExample = \<lparr>Input = usdxAddress, Output = usdcAddress,
     InputAmount = 2000000000000000000, OutputAmount = 4000000\<rparr>"

definition bancorSwapExample :: "real BancorSwap" where
  "bancorSwapExample = \<lparr>SwapPair = emptyExchangePair, SwapFromAmount = 2, SwapToAmount = 4,
     SwapID = ''0x01'', SwapTimestamp = 1600000000\<rparr>"


section \<open>Shutdown of the adapters (Close)\<close>

text \<open>
  A channel that is only ever closed and waited on is the flag "has been closed".
  \<^verbatim>\<open>close(c)\<close> on a closed channel panics; \<^verbatim>\<open><-c\<close> returns at once when \<open>c\<close> is
  closed and otherwise waits for another goroutine to close it.  A call ends in one of
  three ways: it returns, it panics, or it is left waiting.
\<close>

datatype 'a outcome = Returned 'a | Panicked panic | Waiting

subsection \<open>ZBScraper\<close>

record ZBScraper =
  zbWsClient :: bool
  zbShutdown :: bool
  zbShutdownDone :: bool
  zbError :: "go_error option"
  zbClosed :: bool
  zbMainLoop :: bool

text \<open>
  \<open>zbWsClient\<close> tells whether the dial succeeded (the pointer is nil otherwise);
  \<open>zbMainLoop\<close> whether the read loop was started and is still reading.
\<close>

definition ZB_cleanup :: "go_error option \<Rightarrow> ZBScraper \<Rightarrow> panic + ZBScraper" where
  "ZB_cleanup err s =
     (let s1 = (case err of None \<Rightarrow> s | Some e \<Rightarrow> s\<lparr>zbError := Some e\<rparr>);
          s2 = s1\<lparr>zbClosed := True\<rparr>
      in if zbShutdownDone s2 then Inl CloseOfClosedChannel
         else Inr (s2\<lparr>zbShutdownDone := True\<rparr>))"

text \<open>
  The read loop's way out: \<^verbatim>\<open>ReadJSON\<close> fails with \<open>e\<close>, the error is stored, the
  loop breaks and \<^verbatim>\<open>cleanup(s.error)\<close> runs.
\<close>

definition ZB_mainLoop_exit :: "go_error \<Rightarrow> ZBScraper \<Rightarrow> panic + ZBScraper" where
  "ZB_mainLoop_exit e s = ZB_cleanup (Some e) (s\<lparr>zbError := Some e, zbMainLoop := False\<rparr>)"

text \<open>
  \<^verbatim>\<open>ZBScraper.Close\<close>.  \<open>wsClose\<close> is what \<^verbatim>\<open>wsClient.Close()\<close> returns, and
  \<open>readErr\<close> the error the read loop gets from the connection once it is closed: while
  \<^verbatim>\<open>Close\<close> waits on \<^verbatim>\<open>shutdownDone\<close>, a running read loop takes its way out.
\<close>

definition ZB_Close ::
  "go_error option \<Rightarrow> go_error \<Rightarrow> ZBScraper \<Rightarrow> go_error option outcome \<times> ZBScraper" where
  "ZB_Close wsClose readErr s =
     (if zbClosed s then (Returned (Some ''ZBScraper: Already closed''), s)
      else if zbShutdown s then (Panicked CloseOfClosedChannel, s)
      else
        let s1 = s\<lparr>zbShutdown := True\<rparr> in
        if \<not> zbWsClient s1 then (Panicked NilDereference, s1)
        else
          (case wsClose of
             Some err \<Rightarrow> (Returned (Some err), s1)
           | None \<Rightarrow>
               if zbShutdownDone s1 then (Returned (zbError s1), s1)
               else if zbMainLoop s1 then
                 (case ZB_mainLoop_exit readErr s1 of
                    Inl p \<Rightarrow> (Panicked p, s1)
                  | Inr s2 \<Rightarrow> (Returned (zbError s2), s2))
               else (Waiting, s1)))"

subsection \<open>BancorScraper\<close>

record BancorScraper =
  bcRun :: bool
  bcShutdown :: bool
  bcShutdownDone :: bool
  bcError :: "go_error option"
  bcClosed :: bool
  bcPairScrapersClosed :: "string \<rightharpoonup> bool"

definition Bancor_cleanup :: "go_error option \<Rightarrow> BancorScraper \<Rightarrow> panic + BancorScraper" where
  "Bancor_cleanup err s =
     (let s1 = (case err of None \<Rightarrow> s | Some e \<Rightarrow> s\<lparr>bcError := Some e\<rparr>);
          s2 = s1\<lparr>bcClosed := True\<rparr>
      in if bcShutdownDone s2 then Inl CloseOfClosedChannel
         else Inr (s2\<lparr>bcShutdownDone := True\<rparr>))"

text \<open>
  The end of \<^verbatim>\<open>BancorScraper.mainLoop\<close>, reached as soon as the subscription
  goroutine has been started: the error is set if there is none, and
  \<^verbatim>\<open>cleanup(nil)\<close> runs.
\<close>

definition Bancor_mainLoop_end :: "BancorScraper \<Rightarrow> panic + BancorScraper" where
  "Bancor_mainLoop_end s =
     Bancor_cleanup None
       (if bcError s = None then s\<lparr>bcError := Some ''Main loop terminated by Close().''\<rparr> else s)"

text \<open>\<^verbatim>\<open>BancorScraper.Close\<close>: no test of \<^verbatim>\<open>closed\<close> comes before \<^verbatim>\<open>close(scraper.shutdown)\<close>.\<close>

definition Bancor_Close :: "BancorScraper \<Rightarrow> go_error option outcome \<times> BancorScraper" where
  "Bancor_Close s =
     (let s1 = s\<lparr>bcRun := False,
                  bcPairScrapersClosed := (\<lambda>k. map_option (\<lambda>_. True) (bcPairScrapersClosed s k))\<rparr>
      in if bcShutdown s1 then (Panicked CloseOfClosedChannel, s1)
         else
           let s2 = s1\<lparr>bcShutdown := True\<rparr> in
           if bcShutdownDone s2 then (Returned None, s2) else (Waiting, s2))"

definition newBancorScraper :: BancorScraper where
  "newBancorScraper = \<lparr>bcRun = False, bcShutdown = False, bcShutdownDone = False,
     bcError = None, bcClosed = False, bcPairScrapersClosed = Map.empty\<rparr>"

subsection \<open>X2Y2Scraper\<close>

record TradeScraper =
  tsShutdown :: bool
  tsShutdownDone :: bool
  tsChanTradeClosed :: bool
  tsClosed :: bool

text \<open>
  The deferred function of \<^verbatim>\<open>X2Y2Scraper.mainLoop\<close>, run when the loop has seen the
  shutdown: it sets \<^verbatim>\<open>closed\<close> and closes both channels.
\<close>

definition X2Y2_mainLoop_exit :: "TradeScraper \<Rightarrow> panic + TradeScraper" where
  "X2Y2_mainLoop_exit s =
     (let s1 = s\<lparr>tsClosed := True\<rparr> in
      if tsChanTradeClosed s1 \<or> tsShutdownDone s1 then Inl CloseOfClosedChannel
      else Inr (s1\<lparr>tsChanTradeClosed := True, tsShutdownDone := True\<rparr>))"

text \<open>\<^verbatim>\<open>X2Y2Scraper.Close\<close> closes \<^verbatim>\<open>shutdown\<close> and returns without waiting.\<close>

definition X2Y2_Close :: "TradeScraper \<Rightarrow> go_error option outcome \<times> TradeScraper" where
  "X2Y2_Close s =
     (if tsClosed s then (Returned (Some ''scraper already closed''), s)
      else if tsShutdown s then (Panicked CloseOfClosedChannel, s)
      else (Returned None, s\<lparr>tsShutdown := True\<rparr>))"


section \<open>X2Y2 adapter (nftTrade-scrapers/x2y2.go)\<close>

text \<open>
  Go's \<^verbatim>\<open>uint64\<close> and \<^verbatim>\<open>uint\<close> are 64-bit words; \<^verbatim>\<open>int\<close> is a 64-bit word read
  as two's complement (\<open>sint\<close>).  Durations are kept as their number of nanoseconds.
\<close>

record X2Y2ScraperConfig =
  ContractAddr :: string
  BatchSize :: int
  WaitPeriod :: int
  FollowDist :: int
  UseArchiveNode :: bool
  MaxRetry :: "64 word"
  SkipOnErr :: bool
  MaxMetadataSize :: int
  MetadataTimeout :: int

record X2Y2ScraperState =
  LastBlockNum :: "64 word"
  LastTxIndex :: "64 word"
  LastErr :: string
  ErrCounter :: "64 word"

definition defX2Y2Conf :: X2Y2ScraperConfig where
  "defX2Y2Conf = \<lparr>ContractAddr = ''0x74312363e45DCaBA76c59ec49a7Aa8A65a67EeD3'',
     BatchSize = 5000, WaitPeriod = 30000000000, FollowDist = 10, UseArchiveNode = False,
     MaxRetry = 5, SkipOnErr = True, MaxMetadataSize = 51200,
     MetadataTimeout = 30000000000\<rparr>"

definition defX2Y2State :: X2Y2ScraperState where
  "defX2Y2State = \<lparr>LastBlockNum = 14139341, LastTxIndex = 0, LastErr = [], ErrCounter = 0\<rparr>"

subsection \<open>Token metadata (readNFTAttr)\<close>

datatype json =
    JNull
  | JBool bool
  | JNumber int
  | JString string
  | JArray "json list"
  | JObject "(string \<times> json) list"

text \<open>
  A \<^verbatim>\<open>map[string]interface{}\<close> is a partial map; a variable of that type is
  \<open>None\<close> when the map is nil.
\<close>

type_synonym attrs = "string \<rightharpoonup> json"

text \<open>
  The libraries the function calls, as parameters: \<^verbatim>\<open>dataurl.DecodeString\<close>; the JSON
  reader of \<^verbatim>\<open>encoding/json\<close> for a whole text (\<open>None\<close>: not valid JSON) and for the
  first value of a stream; \<^verbatim>\<open>http.NewRequestWithContext\<close>; and
  \<^verbatim>\<open>http.DefaultClient.Do\<close> under a timeout, which yields the status code, the status
  line and the body.
\<close>

record net_lib =
  dataurlDecode :: "string \<Rightarrow> go_error + string"
  jsonParse :: "string \<Rightarrow> json option"
  jsonParseFirst :: "string \<Rightarrow> go_error + json"
  httpNewRequest :: "string \<Rightarrow> go_error option"
  httpDo :: "string \<Rightarrow> int \<Rightarrow> go_error + (int \<times> string \<times> string)"

text \<open>
  Storing a decoded JSON value into a map variable, as \<^verbatim>\<open>encoding/json\<close> does: an
  object's members are added to the map (the last of equal keys wins), \<^verbatim>\<open>null\<close>
  makes the map nil, any other value is a type error.
\<close>

definition json_into_map :: "json \<Rightarrow> attrs option \<Rightarrow> go_error + attrs option" where
  "json_into_map v m =
     (case v of
        JObject kvs \<Rightarrow> Inr (Some ((case m of None \<Rightarrow> Map.empty | Some m0 \<Rightarrow> m0) ++ map_of (rev kvs)))
      | JNull \<Rightarrow> Inr None
      | _ \<Rightarrow> Inl ''json: cannot unmarshal into Go value of type map[string]interface {}'')"

text \<open>
  \<^verbatim>\<open>json.Unmarshal(data, v)\<close>, for \<open>v\<close> a map (\<open>isPointer = False\<close>) or a pointer to
  a map variable.  The library first checks that \<open>data\<close> is valid JSON, then that \<open>v\<close> is
  a non-nil pointer ("If v is nil or not a pointer, Unmarshal returns an
  InvalidUnmarshalError"), and only then decodes.  The result is the error and the
  map variable as the caller sees it afterwards.
\<close>

definition json_Unmarshal ::
  "net_lib \<Rightarrow> string \<Rightarrow> bool \<Rightarrow> attrs option \<Rightarrow> go_error option \<times> attrs option" where
  "json_Unmarshal lib data isPointer m =
     (case jsonParse lib data of
        None \<Rightarrow> (Some ''invalid character looking for beginning of value'', m)
      | Some v \<Rightarrow>
          if \<not> isPointer then (Some ''json: Unmarshal(non-pointer map[string]interface {})'', m)
          else (case json_into_map v m of
                  Inl e \<Rightarrow> (Some e, m)
                | Inr m' \<Rightarrow> (None, m')))"

text \<open>\<^verbatim>\<open>json.NewDecoder(r).Decode(&attrs)\<close> on the bytes \<open>r\<close> delivers.\<close>

definition json_Decode :: "net_lib \<Rightarrow> string \<Rightarrow> attrs option \<Rightarrow> go_error option \<times> attrs option" where
  "json_Decode lib stream m =
     (case jsonParseFirst lib stream of
        Inl e \<Rightarrow> (Some e, m)
      | Inr v \<Rightarrow>
          (case json_into_map v m of
             Inl e \<Rightarrow> (Some e, m)
           | Inr m' \<Rightarrow> (None, m')))"

definition HasPrefix :: "string \<Rightarrow> string \<Rightarrow> bool" where
  "HasPrefix s p \<longleftrightarrow> take (length p) s = p"

text \<open>
  \<^verbatim>\<open>readNFTAttr\<close>.  In the \<^verbatim>\<open>data:\<close> branch the map itself is handed to
  \<^verbatim>\<open>json.Unmarshal\<close>; in the HTTP branch a pointer to the variable is handed to the
  decoder, which reads at most \<^verbatim>\<open>MaxMetadataSize\<close> bytes of the body.
\<close>

definition readNFTAttr :: "net_lib \<Rightarrow> X2Y2ScraperConfig \<Rightarrow> string \<Rightarrow> go_error + attrs option" where
  "readNFTAttr lib conf uri =
     (if uri = [] then Inr None
      else if HasPrefix uri ''ipfs://'' then Inr None
      else
        let attrs = Some Map.empty in
        if HasPrefix uri ''data:'' then
          (case dataurlDecode lib uri of
             Inl err \<Rightarrow> Inl err
           | Inr data \<Rightarrow>
               (case json_Unmarshal lib data False attrs of
                  (Some err, _) \<Rightarrow> Inl err
                | (None, attrs') \<Rightarrow> Inr attrs'))
        else
          (case httpNewRequest lib uri of
             Some err \<Rightarrow> Inl err
           | None \<Rightarrow>
               (case httpDo lib uri (MetadataTimeout conf) of
                  Inl err \<Rightarrow> Inl err
                | Inr (code, status, body) \<Rightarrow>
                    if code < 200 \<or> code > 299
                    then Inl (''unable to read token attributes: '' @ status)
                    else
                      (case json_Decode lib (take (nat (MaxMetadataSize conf)) body) attrs of
                         (Some err, _) \<Rightarrow> Inl err
                       | (None, attrs') \<Rightarrow> Inr attrs'))))"

text \<open>
  An instance of the libraries to run \<^verbatim>\<open>readNFTAttr\<close> on concrete URIs.

  Its \<^verbatim>\<open>dataurl.DecodeString\<close> reads the data URLs of RFC 2397,
  \<^verbatim>\<open>data:[<mediatype>][;base64],<data>\<close>, as the library
  \<^verbatim>\<open>vincent-petithory/dataurl\<close> does (it is not among the sources): the media type and
  its parameters are made of token characters; every character of the data must be a
  URL character, which excludes the space, the control characters, the characters
  \<^verbatim>\<open>< > # " { } | ^ [ ]\<close>, the backslash and the backquote (error
  \<^verbatim>\<open>invalid data character\<close>); the data is then read as standard base64 with padding
  if the header ends in \<^verbatim>\<open>;base64\<close>, and with its \<^verbatim>\<open>%XX\<close> escapes resolved
  otherwise.  Parameter values in quotes are not covered.
  Of the error texts, \<^verbatim>\<open>missing data prefix\<close>, \<^verbatim>\<open>missing comma before data\<close> and
  \<^verbatim>\<open>invalid data character\<close> are the library's; the others name the failure.
\<close>

fun splitOn :: "char \<Rightarrow> string \<Rightarrow> string list" where
  "splitOn sep [] = [[]]"
| "splitOn sep (c # cs) =
     (if c = sep then [] # splitOn sep cs
      else (case splitOn sep cs of p # ps \<Rightarrow> (c # p) # ps | [] \<Rightarrow> [[c]]))"

definition isURLChar :: "char \<Rightarrow> bool" where
  "isURLChar c \<longleftrightarrow>
     (let n = (of_char c :: nat) in
      0x20 < n \<and> n < 0x7F \<and>
      n \<notin> set [0x3C, 0x3E, 0x23, 0x22, 0x7B, 0x7D, 0x7C, 0x5C, 0x5E, 0x5B, 0x5D, 0x60])"

definition isToken :: "char \<Rightarrow> bool" where
  "isToken c \<longleftrightarrow>
     (let n = (of_char c :: nat) in
      0x20 < n \<and> n < 0x7F \<and>
      n \<notin> set [0x28, 0x29, 0x3C, 0x3E, 0x40, 0x2C, 0x3B, 0x3A, 0x5C, 0x22, 0x2F, 0x5B, 0x5D,
                 0x3F, 0x3D])"

text \<open>Base64: the value of a digit, the three bytes of four digits, the whole text.\<close>

definition b64val :: "char \<Rightarrow> nat option" where
  "b64val c =
     (let n = (of_char c :: nat) in
      if 65 \<le> n \<and> n \<le> 90 then Some (n - 65)
      else if 97 \<le> n \<and> n \<le> 122 then Some (n - 71)
      else if 48 \<le> n \<and> n \<le> 57 then Some (n + 4)
      else if n = 43 then Some 62
      else if n = 47 then Some 63
      else None)"

definition b64quantum :: "char \<Rightarrow> char \<Rightarrow> char \<Rightarrow> char \<Rightarrow> string option" where
  "b64quantum a b c d =
     (case (b64val a, b64val b, b64val c, b64val d) of
        (Some x, Some y, Some z, Some w) \<Rightarrow>
          Some [char_of (x * 4 + y div 16), char_of (y mod 16 * 16 + z div 4),
                char_of (z mod 4 * 64 + w)]
      | _ \<Rightarrow> None)"

fun b64decode :: "string \<Rightarrow> string option" where
  "b64decode [] = Some []"
| "b64decode (a # b # c # d # rest) =
     (if rest = [] \<and> c = CHR ''='' \<and> d = CHR ''='' then
        map_option (take 1) (b64quantum a b CHR ''A'' CHR ''A'')
      else if rest = [] \<and> d = CHR ''='' then
        map_option (take 2) (b64quantum a b c CHR ''A'')
      else
        (case (b64quantum a b c d, b64decode rest) of
           (Some q, Some r) \<Rightarrow> Some (q @ r)
         | _ \<Rightarrow> None))"
| "b64decode _ = None"

text \<open>The \<^verbatim>\<open>%XX\<close> escapes.\<close>

definition hexVal :: "char \<Rightarrow> nat option" where
  "hexVal c =
     (let n = (of_char c :: nat) in
      if 48 \<le> n \<and> n \<le> 57 then Some (n - 48)
      else if 65 \<le> n \<and> n \<le> 70 then Some (n - 55)
      else if 97 \<le> n \<and> n \<le> 102 then Some (n - 87)
      else None)"

fun unescape :: "string \<Rightarrow> string option" where
  "unescape [] = Some []"
| "unescape (c # cs) =
     (if c = CHR ''%'' then
        (case cs of
           h1 # h0 # rest \<Rightarrow>
             (case (hexVal h1, hexVal h0, unescape rest) of
                (Some x, Some y, Some r) \<Rightarrow> Some (char_of (x * 16 + y) # r)
              | _ \<Rightarrow> None)
         | _ \<Rightarrow> None)
      else map_option ((#) c) (unescape cs))"

definition validMediaType :: "string \<Rightarrow> bool" where
  "validMediaType m \<longleftrightarrow>
     m = [] \<or>
     (case splitOn CHR ''/'' m of
        [t, s] \<Rightarrow> t \<noteq> [] \<and> s \<noteq> [] \<and> list_all isToken t \<and> list_all isToken s
      | _ \<Rightarrow> False)"

definition validParam :: "string \<Rightarrow> bool" where
  "validParam p \<longleftrightarrow>
     (case splitOn CHR ''='' p of
        [a, v] \<Rightarrow> a \<noteq> [] \<and> list_all isToken a \<and> list_all (\<lambda>c. isToken c \<or> c = CHR ''%'') v
      | _ \<Rightarrow> False)"

definition dataurl_DecodeString :: "string \<Rightarrow> go_error + string" where
  "dataurl_DecodeString u =
     (if \<not> HasPrefix u ''data:'' then Inl ''missing data prefix''
      else
        let rest = drop 5 u in
        if CHR '','' \<notin> set rest then Inl ''missing comma before data''
        else
          let header = takeWhile (\<lambda>c. c \<noteq> CHR '','') rest;
              payload = tl (dropWhile (\<lambda>c. c \<noteq> CHR '','') rest);
              pieces = splitOn CHR '';'' header;
              base64 = (1 < length pieces \<and> last pieces = ''base64'');
              params = (if base64 then butlast (tl pieces) else tl pieces)
          in
            if \<not> validMediaType (hd pieces) \<or> \<not> list_all validParam params
            then Inl ''invalid media type''
            else if \<not> list_all isURLChar payload then Inl ''invalid data character''
            else if base64 then
              (case b64decode payload of
                 None \<Rightarrow> Inl ''illegal base64 data''
               | Some d \<Rightarrow> Inr d)
            else
              (case unescape payload of
                 None \<Rightarrow> Inl ''invalid escape sequence''
               | Some d \<Rightarrow> Inr d))"

text \<open>
  The JSON reader of the instance knows one text, the object with the single member
  \<open>name: x\<close>; the HTTP client serves that text for every URL.  The same object comes
  as three data URLs: in base64, with the reserved characters escaped, and with the
  JSON text put in as it stands.
\<close>

definition exampleJSON :: string where
  \<open>exampleJSON = ''{"name":"x"}''\<close>

definition exampleDataURI :: string where
  "exampleDataURI = ''data:application/json;base64,eyJuYW1lIjoieCJ9''"

definition escapedDataURI :: string where
  "escapedDataURI = ''data:application/json;charset=utf-8,%7B%22name%22%3A%22x%22%7D''"

definition plainDataURI :: string where
  \<open>plainDataURI = ''data:application/json,{"name":"x"}''\<close>

definition exampleLib :: net_lib where
  "exampleLib = \<lparr>
     dataurlDecode = dataurl_DecodeString,
     jsonParse = (\<lambda>d. if d = exampleJSON then Some (JObject [(''name'', JString ''x'')]) else None),
     jsonParseFirst = (\<lambda>d. if d = exampleJSON then Inr (JObject [(''name'', JString ''x'')])
                          else Inl ''unexpected EOF''),
     httpNewRequest = (\<lambda>u. None),
     httpDo = (\<lambda>u t. Inr (200, ''200 OK'', exampleJSON))\<rparr>"


subsection \<open>Chain client, contract bindings and data store\<close>

record Log =
  logAddress :: address
  logTopics :: "256 word list"
  logData :: string
  logBlockNumber :: "64 word"

record Receipt =
  rcLogs :: "Log list"
  rcContractAddress :: address

record Transaction =
  txTo :: "address option"
  txHash :: "256 word"

record ChainBlock =
  blkTime :: "64 word"
  blkTransactions :: "Transaction list"

record EvProfit =
  evCurrency :: address
  evAmount :: int

record ERC721TransferLog =
  tlFrom :: address
  tlTo :: address
  tlTokenId :: int

text \<open>
  What the chain client answers.  Each call is a parameter that gives the call's
  result, an error or a value, for its arguments.
\<close>

record eth_client =
  ethBlockNumber :: "go_error + 64 word"
  ethCodeAt :: "address \<Rightarrow> 64 word \<Rightarrow> go_error + string"
  ethBlockByNumber :: "64 word \<Rightarrow> go_error + ChainBlock"
  ethNetworkID :: "go_error + int"
  ethSender :: "int \<Rightarrow> Transaction \<Rightarrow> go_error + address"
  ethTransactionByHash :: "256 word \<Rightarrow> go_error + bool"
  ethTransactionReceipt :: "256 word \<Rightarrow> go_error + Receipt"

text \<open>
  The generated contract bindings (packages \<^verbatim>\<open>x2y2\<close>, \<^verbatim>\<open>erc20\<close>, \<^verbatim>\<open>erc721\<close>),
  which are not among the sources.  A call takes the block of \<^verbatim>\<open>CallOpts\<close>, \<open>None\<close>
  for the latest state.
\<close>

record contract_bindings =
  unpackEvProfit :: "string \<Rightarrow> go_error + EvProfit"
  erc20Bind :: "address \<Rightarrow> go_error option"
  erc20Symbol :: "address \<Rightarrow> 64 word option \<Rightarrow> go_error + string"
  erc20Decimals :: "address \<Rightarrow> 64 word option \<Rightarrow> go_error + nat"
  erc721Bind :: "address \<Rightarrow> go_error option"
  erc721ParseTransfer :: "Log \<Rightarrow> go_error + ERC721TransferLog"
  erc721CompatBind :: "address \<Rightarrow> go_error option"
  erc721CompatParseTransfer :: "Log \<Rightarrow> go_error + ERC721TransferLog"
  erc721MetadataBind :: "address \<Rightarrow> go_error option"
  erc721Name :: "address \<Rightarrow> 64 word option \<Rightarrow> go_error + string"
  erc721Symbol :: "address \<Rightarrow> 64 word option \<Rightarrow> go_error + string"
  erc721TokenURI :: "address \<Rightarrow> 64 word option \<Rightarrow> int \<Rightarrow> go_error + string"

record NFTClass =
  clsAddress :: address
  clsSymbol :: string
  clsName :: string
  clsBlockchain :: string
  clsContractType :: string

record NFT =
  nftNFTClass :: NFTClass
  nftTokenID :: int
  nftCreationTime :: go_time
  nftCreatorAddress :: address
  nftURI :: string
  nftAttributes :: "attrs option"

text \<open>A read of the relational store: a row, \<^verbatim>\<open>pgx.ErrNoRows\<close>, or another error.\<close>

datatype 'a db_read = Found 'a | ErrNoRows | DbError go_error

record datastore =
  dsGetNFTClass :: "address \<Rightarrow> string \<Rightarrow> NFTClass db_read"
  dsSetNFTClass :: "NFTClass \<Rightarrow> go_error option"
  dsGetNFT :: "address \<Rightarrow> string \<Rightarrow> int \<Rightarrow> NFT db_read"
  dsSetNFT :: "NFT \<Rightarrow> go_error option"
  dsGetBlockTime :: "64 word \<Rightarrow> go_time"
  dsGetAsset :: "address \<Rightarrow> string \<Rightarrow> Asset"

text \<open>
  The operations of \<^verbatim>\<open>shopspring/decimal\<close> in use: the quotient of an amount by a
  power of ten, the product, the reading of a literal, the conversion to float64.
\<close>

record ('d, 'f) decimal_ops =
  decQuoPow10 :: "int \<Rightarrow> nat \<Rightarrow> 'd"
  decMul :: "'d \<Rightarrow> 'd \<Rightarrow> 'd"
  decFromString :: "string \<Rightarrow> go_error + 'd"
  decFloat64 :: "'d \<Rightarrow> 'f"

text \<open>
  All that one call of \<^verbatim>\<open>processTx\<close> meets outside the scraper: the chain, the
  bindings, the store, the network, and whether the send on the trade channel or the
  shutdown wins the \<^verbatim>\<open>select\<close>.
\<close>

record tx_io =
  ioEth :: eth_client
  ioContracts :: contract_bindings
  ioDb :: datastore
  ioLib :: net_lib
  ioSendWins :: bool

subsection \<open>Finding the ERC-721 transfers of a receipt\<close>

record x2y2ERC721Transfer =
  NFTAddress :: address
  NFTName :: "string option"
  NFTSymbol :: "string option"
  TransferFrom :: address
  TransferTo :: address
  TokenID :: int
  TokenURI :: "string option"
  TokenAttrs :: "attrs option"

text \<open>The id of the event \<^verbatim>\<open>Transfer(address,address,uint256)\<close>.\<close>

definition transferTopic :: "256 word" where
  "transferTopic = 0xddf252ad1be2c89b69c2b068fc378daa952ba7f163c4a11628f55a4df523b3ef"

text \<open>
  The parse of one log: the ERC-721 binding first, the binding for old contracts with
  an unindexed token id second.  \<open>None\<close> is the loop's \<^verbatim>\<open>continue\<close>.
\<close>

definition parseTransferLog :: "contract_bindings \<Rightarrow> Log \<Rightarrow> ERC721TransferLog option" where
  "parseTransferLog cb txLog =
     (if length (logTopics txLog) \<noteq> 4 \<or> logTopics txLog ! 0 \<noteq> transferTopic then None
      else
        (case erc721Bind cb (logAddress txLog) of
           Some err \<Rightarrow> None
         | None \<Rightarrow>
             (case erc721ParseTransfer cb txLog of
                Inr transferLog \<Rightarrow> Some transferLog
              | Inl err \<Rightarrow>
                  (case erc721CompatBind cb (logAddress txLog) of
                     Some err \<Rightarrow> None
                   | None \<Rightarrow>
                       (case erc721CompatParseTransfer cb txLog of
                          Inl err \<Rightarrow> None
                        | Inr compatLog \<Rightarrow> Some compatLog)))))"

text \<open>
  The metadata of a transfer: name, symbol, token URI and attributes.  No failure
  here is fatal; the URI and the attributes are stored only if both were read.
\<close>

definition withMetadata ::
  "contract_bindings \<Rightarrow> net_lib \<Rightarrow> X2Y2ScraperConfig \<Rightarrow> Log \<Rightarrow> x2y2ERC721Transfer
     \<Rightarrow> x2y2ERC721Transfer" where
  "withMetadata cb lib conf txLog transfer =
     (let blockNumber = (if UseArchiveNode conf then Some (logBlockNumber txLog) else None) in
      case erc721MetadataBind cb (logAddress txLog) of
        Some err \<Rightarrow> transfer
      | None \<Rightarrow>
          let t1 = (case erc721Name cb (logAddress txLog) blockNumber of
                      Inl err \<Rightarrow> transfer
                    | Inr nftName \<Rightarrow> transfer\<lparr>NFTName := Some nftName\<rparr>);
              t2 = (case erc721Symbol cb (logAddress txLog) blockNumber of
                      Inl err \<Rightarrow> t1
                    | Inr nftSymbol \<Rightarrow> t1\<lparr>NFTSymbol := Some nftSymbol\<rparr>)
          in (case erc721TokenURI cb (logAddress txLog) blockNumber (TokenID transfer) of
                Inl err \<Rightarrow> t2
              | Inr tokenURI \<Rightarrow>
                  (case readNFTAttr lib conf tokenURI of
                     Inl err \<Rightarrow> t2
                   | Inr attrs \<Rightarrow> t2\<lparr>TokenURI := Some tokenURI, TokenAttrs := attrs\<rparr>)))"

definition transferOfLog ::
  "contract_bindings \<Rightarrow> net_lib \<Rightarrow> X2Y2ScraperConfig \<Rightarrow> Log \<Rightarrow> x2y2ERC721Transfer option" where
  "transferOfLog cb lib conf txLog =
     (case parseTransferLog cb txLog of
        None \<Rightarrow> None
      | Some transferLog \<Rightarrow>
          Some (withMetadata cb lib conf txLog
                  \<lparr>NFTAddress = logAddress txLog, NFTName = None, NFTSymbol = None,
                   TransferFrom = tlFrom transferLog, TransferTo = tlTo transferLog,
                   TokenID = tlTokenId transferLog, TokenURI = None,
                   TokenAttrs = Some Map.empty\<rparr>))"

text \<open>\<^verbatim>\<open>findERC721Transfers\<close>: it has no failing path, its error is always nil.\<close>

definition findERC721Transfers ::
  "contract_bindings \<Rightarrow> net_lib \<Rightarrow> X2Y2ScraperConfig \<Rightarrow> Receipt \<Rightarrow> x2y2ERC721Transfer list" where
  "findERC721Transfers cb lib conf receipt =
     List.map_filter (transferOfLog cb lib conf) (rcLogs receipt)"

subsection \<open>Contract creation info\<close>

text \<open>
  The loop \<^verbatim>\<open>for lo <= hi\<close> of \<^verbatim>\<open>findContractCreationInfo\<close> over \<^verbatim>\<open>uint64\<close>.  It
  may run forever, so its result is an option: \<open>None\<close> when it never ends,
  \<open>Some (Inl err)\<close> when \<^verbatim>\<open>CodeAt\<close> failed, \<open>Some (Inr blockNum)\<close> when it ends with
  that \<^verbatim>\<open>blockNum\<close>.
\<close>

partial_function (option) creationSearch ::
  "(64 word \<Rightarrow> go_error + string) \<Rightarrow> 64 word \<Rightarrow> 64 word \<Rightarrow> 64 word \<Rightarrow> (go_error + 64 word) option" where
  "creationSearch codeAt lo hi blockNum =
     (if lo \<le> hi then
        (case codeAt ((lo + hi) div 2) of
           Inl err \<Rightarrow> Some (Inl err)
         | Inr code \<Rightarrow>
             if (if length code = 0 then hi else (lo + hi) div 2)
                  = (if length code = 0 then (lo + hi) div 2 else lo) + 1
             then Some (Inr (if length code = 0 then hi else (lo + hi) div 2))
             else creationSearch codeAt
                    (if length code = 0 then (lo + hi) div 2 else lo)
                    (if length code = 0 then hi else (lo + hi) div 2)
                    ((lo + hi) div 2))
      else Some (Inr blockNum))"

text \<open>
  The scan of the block's transactions for the creation transaction.  The zero
  address and the zero time are returned, without error, when none matches.
\<close>

fun findCreator ::
  "eth_client \<Rightarrow> address \<Rightarrow> int \<Rightarrow> go_time \<Rightarrow> Transaction list \<Rightarrow> go_error + (address \<times> go_time)" where
  "findCreator eth contractAddr chainID createdAt [] = Inr (0, zeroTime)"
| "findCreator eth contractAddr chainID createdAt (trx # rest) =
     (if txTo trx \<noteq> None then findCreator eth contractAddr chainID createdAt rest
      else
        (case ethTransactionReceipt eth (txHash trx) of
           Inl err \<Rightarrow> Inl err
         | Inr receipt \<Rightarrow>
             if rcContractAddress receipt = contractAddr then
               (case ethSender eth chainID trx of
                  Inl err \<Rightarrow> Inl err
                | Inr createdBy \<Rightarrow> Inr (createdBy, createdAt))
             else findCreator eth contractAddr chainID createdAt rest))"

definition findContractCreationInfo ::
  "eth_client \<Rightarrow> X2Y2ScraperConfig \<Rightarrow> address \<Rightarrow> (go_error + (address \<times> go_time)) option" where
  "findContractCreationInfo eth conf contractAddr =
     (if \<not> UseArchiveNode conf then Some (Inr (0, zeroTime))
      else
        (case ethBlockNumber eth of
           Inl err \<Rightarrow> Some (Inl err)
         | Inr head \<Rightarrow>
             (case creationSearch (ethCodeAt eth contractAddr) 0 head 0 of
                None \<Rightarrow> None
              | Some (Inl err) \<Rightarrow> Some (Inl err)
              | Some (Inr blockNum) \<Rightarrow>
                  (case ethBlockByNumber eth blockNum of
                     Inl err \<Rightarrow> Some (Inl err)
                   | Inr block \<Rightarrow>
                       (case ethNetworkID eth of
                          Inl err \<Rightarrow> Some (Inl err)
                        | Inr chainID \<Rightarrow>
                            Some (findCreator eth contractAddr chainID
                                    (sint (blkTime block)) (blkTransactions block)))))))"


subsection \<open>Building and sending the trade\<close>

definition x2y2NFTContractType :: string where
  "x2y2NFTContractType = ''ERC721''"

definition createOrReadNFTClass :: "datastore \<Rightarrow> x2y2ERC721Transfer \<Rightarrow> go_error + NFTClass" where
  "createOrReadNFTClass db transfer =
     (case dsGetNFTClass db (NFTAddress transfer) ETHEREUM of
        Found nftClass \<Rightarrow> Inr nftClass
      | DbError err \<Rightarrow> Inl err
      | ErrNoRows \<Rightarrow>
          let nftClass = \<lparr>clsAddress = NFTAddress transfer,
                           clsSymbol = (case NFTSymbol transfer of None \<Rightarrow> [] | Some v \<Rightarrow> v),
                           clsName = (case NFTName transfer of None \<Rightarrow> [] | Some v \<Rightarrow> v),
                           clsBlockchain = ETHEREUM,
                           clsContractType = x2y2NFTContractType\<rparr>
          in (case dsSetNFTClass db nftClass of
                Some err \<Rightarrow> Inl err
              | None \<Rightarrow> Inr nftClass))"

text \<open>
  \<^verbatim>\<open>createOrReadNFT\<close> looks for the creation info of the contract when the NFT is
  new, so it returns only if that search does.
\<close>

definition createOrReadNFT ::
  "eth_client \<Rightarrow> datastore \<Rightarrow> X2Y2ScraperConfig \<Rightarrow> NFTClass \<Rightarrow> x2y2ERC721Transfer
     \<Rightarrow> (go_error + NFT) option" where
  "createOrReadNFT eth db conf nftClass transfer =
     (case dsGetNFT db (clsAddress nftClass) ETHEREUM (TokenID transfer) of
        Found nft \<Rightarrow> Some (Inr nft)
      | DbError err \<Rightarrow> Some (Inl err)
      | ErrNoRows \<Rightarrow>
          (case findContractCreationInfo eth conf (clsAddress nftClass) of
             None \<Rightarrow> None
           | Some (Inl err) \<Rightarrow> Some (Inl err)
           | Some (Inr (createdBy, createdAt)) \<Rightarrow>
               let nft = \<lparr>nftNFTClass = nftClass, nftTokenID = TokenID transfer,
                          nftCreationTime = createdAt, nftCreatorAddress = createdBy,
                          nftURI = (case TokenURI transfer of None \<Rightarrow> [] | Some u \<Rightarrow> u),
                          nftAttributes = TokenAttrs transfer\<rparr>
               in (case dsSetNFT db nft of
                     Some err \<Rightarrow> Some (Inl err)
                   | None \<Rightarrow> Some (Inr nft))))"

record EthFilteredTx =
  BlockNum :: "64 word"
  TXIndex :: "64 word"
  TXHash :: "256 word"
  TxLogs :: "Log list"

record 'f NFTTrade =
  TradeNFT :: NFT
  TradePrice :: int
  TradePriceUSD :: 'f
  TradeFromAddress :: address
  TradeToAddress :: address
  TradeBlockNumber :: "64 word"
  TradeTimestamp :: go_time
  TradeTxHash :: "256 word"
  TradeExchange :: string
  TradeCurrency :: Asset

definition errX2Y2ShutdownRequest :: go_error where
  "errX2Y2ShutdownRequest = ''shutdown requested''"

text \<open>
  \<^verbatim>\<open>notifyTrade\<close>: the error, and the trades put on the channel (none or one).  The
  currency asset comes from the cache or, failing that, from the store; either way it
  is what \<open>dsGetAsset\<close> gives for the address.
\<close>

definition notifyTrade ::
  "tx_io \<Rightarrow> X2Y2ScraperConfig \<Rightarrow> string \<Rightarrow> EthFilteredTx \<Rightarrow> x2y2ERC721Transfer \<Rightarrow> int \<Rightarrow> 'f
     \<Rightarrow> address \<Rightarrow> (go_error option \<times> 'f NFTTrade list) option" where
  "notifyTrade io conf exchangeName tx transfer price usdPrice currAddr =
     (case createOrReadNFTClass (ioDb io) transfer of
        Inl err \<Rightarrow> Some (Some err, [])
      | Inr nftClass \<Rightarrow>
          (case createOrReadNFT (ioEth io) (ioDb io) conf nftClass transfer of
             None \<Rightarrow> None
           | Some (Inl err) \<Rightarrow> Some (Some err, [])
           | Some (Inr nft) \<Rightarrow>
               let trade = \<lparr>TradeNFT = nft, TradePrice = price, TradePriceUSD = usdPrice,
                            TradeFromAddress = TransferFrom transfer,
                            TradeToAddress = TransferTo transfer,
                            TradeBlockNumber = BlockNum tx,
                            TradeTimestamp = dsGetBlockTime (ioDb io) (BlockNum tx),
                            TradeTxHash = TXHash tx, TradeExchange = exchangeName,
                            TradeCurrency = dsGetAsset (ioDb io) currAddr ETHEREUM\<rparr>
               in if ioSendWins io then Some (None, [trade])
                  else Some (Some errX2Y2ShutdownRequest, [])))"

subsection \<open>processTx\<close>

definition fetchERC20Metadata ::
  "contract_bindings \<Rightarrow> X2Y2ScraperConfig \<Rightarrow> address \<Rightarrow> 64 word \<Rightarrow> go_error + (string \<times> nat)" where
  "fetchERC20Metadata cb conf addr blockNum =
     (case erc20Bind cb addr of
        Some err \<Rightarrow> Inl err
      | None \<Rightarrow>
          let blockNumber = (if UseArchiveNode conf then Some blockNum else None) in
          (case erc20Symbol cb addr blockNumber of
             Inl err \<Rightarrow> Inl err
           | Inr symbol \<Rightarrow>
               (case erc20Decimals cb addr blockNumber of
                  Inl err \<Rightarrow> Inl err
                | Inr decimals \<Rightarrow> Inr (symbol, decimals))))"

definition findPrice :: "('d, 'f) decimal_ops \<Rightarrow> string \<Rightarrow> go_error + 'd" where
  "findPrice dec symbol =
     (if symbol = ''ETH'' \<or> symbol = ''WETH'' then decFromString dec ''2040.0910''
      else if symbol = ''MANA'' then decFromString dec ''0.5''
      else decFromString dec ''1'')"

definition calcUSDPrice :: "('d, 'f) decimal_ops \<Rightarrow> string \<Rightarrow> 'd \<Rightarrow> go_error + 'f" where
  "calcUSDPrice dec symbol price =
     (case findPrice dec symbol of
        Inl err \<Rightarrow> Inl err
      | Inr tokenPrice \<Rightarrow> Inr (decFloat64 dec (decMul dec price tokenPrice)))"

text \<open>
  \<^verbatim>\<open>common.Hash.Hex()\<close>, which is also what \<^verbatim>\<open>%s\<close> prints of a hash: \<^verbatim>\<open>0x\<close> and
  the 64 hexadecimal digits of the hash, in lower case.
\<close>

definition hexDigit :: "nat \<Rightarrow> char" where
  "hexDigit n = ''0123456789abcdef'' ! n"

fun hexDigits :: "nat \<Rightarrow> nat \<Rightarrow> string" where
  "hexDigits 0 n = []"
| "hexDigits (Suc k) n = hexDigits k (n div 16) @ [hexDigit (n mod 16)]"

definition Hash_Hex :: "256 word \<Rightarrow> string" where
  "Hash_Hex h = ''0x'' @ hexDigits 64 (unat h)"

text \<open>
  The steps of \<^verbatim>\<open>processTx\<close> that come before the scan of the receipt: the event is
  unpacked from the first log's data, the transaction is looked up and must not be
  pending, the receipt is fetched, and the currency is resolved (the zero address is
  ETH with 18 decimals).  The result is the event, the receipt, the currency's symbol
  and its decimals.
\<close>

definition txPrelude ::
  "tx_io \<Rightarrow> X2Y2ScraperConfig \<Rightarrow> EthFilteredTx
     \<Rightarrow> panic + (go_error + (EvProfit \<times> Receipt \<times> string \<times> nat))" where
  "txPrelude io conf tx =
     (if TxLogs tx = [] then Inl IndexOutOfRange
      else Inr
        (case unpackEvProfit (ioContracts io) (logData (TxLogs tx ! 0)) of
           Inl err \<Rightarrow> Inl err
         | Inr ev \<Rightarrow>
             (case ethTransactionByHash (ioEth io) (TXHash tx) of
                Inl err \<Rightarrow> Inl err
              | Inr pending \<Rightarrow>
                  if pending
                  then Inl (''transaction('' @ Hash_Hex (TXHash tx) @ '') status error: pending=true'')
                  else
                    (case ethTransactionReceipt (ioEth io) (TXHash tx) of
                       Inl err \<Rightarrow> Inl err
                     | Inr receipt \<Rightarrow>
                         if evCurrency ev \<noteq> 0 then
                           (case fetchERC20Metadata (ioContracts io) conf (evCurrency ev) (BlockNum tx) of
                              Inl err \<Rightarrow> Inl err
                            | Inr (symbol, decimals) \<Rightarrow> Inr (ev, receipt, symbol, decimals))
                         else Inr (ev, receipt, ''ETH'', 18)))))"

text \<open>
  What a call comes to: it panics, it never returns, or it returns a value.
\<close>

datatype 'a run = Panics panic | Diverges | Returns 'a

text \<open>
  \<^verbatim>\<open>processTx\<close> returns \<^verbatim>\<open>(skipped, err)\<close>; the third component lists the trades
  the call has put on the trade channel.
\<close>

definition processTx ::
  "('d, 'f) decimal_ops \<Rightarrow> tx_io \<Rightarrow> X2Y2ScraperConfig \<Rightarrow> string \<Rightarrow> EthFilteredTx
     \<Rightarrow> (bool \<times> go_error option \<times> 'f NFTTrade list) run" where
  "processTx dec io conf exchangeName tx =
     (case txPrelude io conf tx of
        Inl p \<Rightarrow> Panics p
      | Inr (Inl err) \<Rightarrow> Returns (False, Some err, [])
      | Inr (Inr (ev, receipt, currSymbol, currDecimals)) \<Rightarrow>
          let transfers = findERC721Transfers (ioContracts io) (ioLib io) conf receipt in
          if length transfers = 0 then Returns (True, None, [])
          else if length transfers > 1 then Returns (True, None, [])
          else
            let normPrice = decQuoPow10 dec (evAmount ev) currDecimals in
            (case calcUSDPrice dec currSymbol normPrice of
               Inl err \<Rightarrow> Returns (False, Some err, [])
             | Inr usdPrice \<Rightarrow>
                 (case notifyTrade io conf exchangeName tx (transfers ! 0) (evAmount ev) usdPrice
                         (evCurrency ev) of
                    None \<Rightarrow> Diverges
                  | Some (Some err, sent) \<Rightarrow> Returns (False, Some err, sent)
                  | Some (None, sent) \<Rightarrow> Returns (False, None, sent))))"

subsection \<open>The acquisition loop (FetchTrades)\<close>

text \<open>
  The scraper: its configuration and state in memory, the copies of both in the
  state store, the name of the exchange, the trades sent on the trade channel so far,
  and the warnings and errors logged by \<^verbatim>\<open>FetchTrades\<close>.
\<close>

record 'f X2Y2Scraper =
  sConf :: X2Y2ScraperConfig
  sState :: X2Y2ScraperState
  sExchange :: string
  storedConf :: X2Y2ScraperConfig
  storedState :: X2Y2ScraperState
  sentTrades :: "'f NFTTrade list"
  logLines :: "string list"

text \<open>
  \<^verbatim>\<open>utils.EthFilterTXs\<close> is not among the sources.  Its criteria are kept (event
  address and topic are fixed by the configuration), and so is what the loop reads
  of its result.
\<close>

record EthTxFilterCriteria =
  StartBlockNum :: "64 word"
  StartTxIndex :: "64 word"
  LimitBlocks :: int
  BehindHighestBlock :: int
  EvAddr :: string

record EthFilterResult =
  TXs :: "EthFilteredTx list"
  ResLastBlockNum :: "64 word"

text \<open>
  What one tick meets outside the scraper: whether the two loads and the state writes
  fail, what the filter returns, and the surroundings of each \<^verbatim>\<open>processTx\<close> call.
  Every iteration of the loop writes the state exactly once, so the failure of that
  write is given per transaction.
\<close>

record tick_io =
  loadConfigErr :: "go_error option"
  loadStateErr :: "go_error option"
  filterTXs :: "EthTxFilterCriteria \<Rightarrow> go_error + EthFilterResult"
  txIO :: "EthFilteredTx \<Rightarrow> tx_io"
  storeErrAt :: "EthFilteredTx \<Rightarrow> go_error option"
  finalStoreErr :: "go_error option"

definition storeState :: "go_error option \<Rightarrow> 'f X2Y2Scraper \<Rightarrow> go_error option \<times> 'f X2Y2Scraper" where
  "storeState failure s =
     (case failure of
        Some err \<Rightarrow> (Some err, s)
      | None \<Rightarrow> (None, s\<lparr>storedState := sState s\<rparr>))"

text \<open>
  The branch \<^verbatim>\<open>if err != nil\<close> of the loop body.  \<open>Inl\<close> is a return from
  \<^verbatim>\<open>FetchTrades\<close>, \<open>Inr\<close> falls through to the rest of the body.  The test reads
  \<^verbatim>\<open>MaxRetry\<close> and nothing else of the configuration.
\<close>

definition onTxError ::
  "EthFilteredTx \<Rightarrow> go_error \<Rightarrow> go_error option \<Rightarrow> 'f X2Y2Scraper
     \<Rightarrow> (go_error option \<times> 'f X2Y2Scraper) + 'f X2Y2Scraper" where
  "onTxError tx err storeFailure s =
     (let s1 = s\<lparr>sState := (sState s)\<lparr>ErrCounter := ErrCounter (sState s) + 1\<rparr>\<rparr> in
      if sint (ErrCounter (sState s1)) \<le> sint (MaxRetry (sConf s1)) then
        let msg = ''unable to process trade transaction('' @ Hash_Hex (TXHash tx) @ ''): '' @ err;
            s2 = s1\<lparr>sState := (sState s1)\<lparr>LastErr := msg\<rparr>, logLines := logLines s1 @ [msg]\<rparr>
        in (case storeState storeFailure s2 of
              (Some err', s3) \<Rightarrow> Inl (Some err', s3)
            | (None, s3) \<Rightarrow> Inl (Some err, s3))
      else Inr (s1\<lparr>logLines := logLines s1 @ [''SKIPPING PERMANENTLY!'']\<rparr>))"

text \<open>
  The rest of the body: count the trade, reset the error counter, move the cursor to
  the next index, write the state.
\<close>

definition moveNext ::
  "EthFilteredTx \<Rightarrow> bool \<Rightarrow> go_error option \<Rightarrow> 'f X2Y2Scraper \<Rightarrow> 64 word
     \<Rightarrow> go_error option \<times> 'f X2Y2Scraper \<times> 64 word" where
  "moveNext tx skipped storeFailure s numTrades =
     (let numTrades' = (if \<not> skipped then numTrades + 1 else numTrades);
          s1 = s\<lparr>sState := (sState s)\<lparr>ErrCounter := 0, LastTxIndex := TXIndex tx + 1\<rparr>\<rparr>
      in (case storeState storeFailure s1 of (err, s2) \<Rightarrow> (err, s2, numTrades')))"

text \<open>
  \<^verbatim>\<open>for _, tx := range res.TXs\<close>.  \<open>ptx\<close> is \<^verbatim>\<open>processTx\<close> in the surroundings of
  the tick.
\<close>

fun txLoop ::
  "(EthFilteredTx \<Rightarrow> (bool \<times> go_error option \<times> 'f NFTTrade list) run)
     \<Rightarrow> (EthFilteredTx \<Rightarrow> go_error option) \<Rightarrow> 'f X2Y2Scraper \<Rightarrow> 64 word \<Rightarrow> EthFilteredTx list
     \<Rightarrow> (go_error option \<times> 'f X2Y2Scraper \<times> 64 word) run" where
  "txLoop ptx storeFailure s numTrades [] = Returns (None, s, numTrades)"
| "txLoop ptx storeFailure s numTrades (tx # txs) =
     (let s1 = s\<lparr>sState := (sState s)\<lparr>LastBlockNum := BlockNum tx, LastTxIndex := TXIndex tx,
                                         LastErr := []\<rparr>\<rparr>
      in case ptx tx of
           Panics p \<Rightarrow> Panics p
         | Diverges \<Rightarrow> Diverges
         | Returns (skipped, err, sent) \<Rightarrow>
             let s2 = s1\<lparr>sentTrades := sentTrades s1 @ sent\<rparr> in
             (case (case err of None \<Rightarrow> Inr s2 | Some e \<Rightarrow> onTxError tx e (storeFailure tx) s2) of
                Inl (err', s3) \<Rightarrow> Returns (err', s3, numTrades)
              | Inr s3 \<Rightarrow>
                  (case moveNext tx skipped (storeFailure tx) s3 numTrades of
                     (Some err', s4, n) \<Rightarrow> Returns (Some err', s4, n)
                   | (None, s4, n) \<Rightarrow> txLoop ptx storeFailure s4 n txs)))"

definition filterCriteria :: "'f X2Y2Scraper \<Rightarrow> EthTxFilterCriteria" where
  "filterCriteria s =
     \<lparr>StartBlockNum = LastBlockNum (sState s), StartTxIndex = LastTxIndex (sState s),
      LimitBlocks = BatchSize (sConf s), BehindHighestBlock = FollowDist (sConf s),
      EvAddr = ContractAddr (sConf s)\<rparr>"

text \<open>\<^verbatim>\<open>loadConfig\<close> and \<^verbatim>\<open>loadState\<close> read the stored copies into memory.\<close>

definition loaded :: "'f X2Y2Scraper \<Rightarrow> 'f X2Y2Scraper" where
  "loaded s = s\<lparr>sConf := storedConf s, sState := storedState s\<rparr>"

definition FetchTrades ::
  "('d, 'f) decimal_ops \<Rightarrow> tick_io \<Rightarrow> 'f X2Y2Scraper \<Rightarrow> (go_error option \<times> 'f X2Y2Scraper) run" where
  "FetchTrades dec io s =
     (case loadConfigErr io of
        Some err \<Rightarrow> Returns (Some err, s)
      | None \<Rightarrow>
          let s1 = s\<lparr>sConf := storedConf s\<rparr> in
          (case loadStateErr io of
             Some err \<Rightarrow> Returns (Some err, s1)
           | None \<Rightarrow>
               let s2 = loaded s in
               (case filterTXs io (filterCriteria s2) of
                  Inl err \<Rightarrow> Returns (Some err, s2)
                | Inr res \<Rightarrow>
                    (case txLoop (\<lambda>tx. processTx dec (txIO io tx) (sConf s2) (sExchange s2) tx)
                            (storeErrAt io) s2 0 (TXs res) of
                       Panics p \<Rightarrow> Panics p
                     | Diverges \<Rightarrow> Diverges
                     | Returns (Some err, s3, n) \<Rightarrow> Returns (Some err, s3)
                     | Returns (None, s3, n) \<Rightarrow>
                         let s4 = s3\<lparr>sState := (sState s3)\<lparr>LastBlockNum := ResLastBlockNum res + 1,
                                                              LastTxIndex := 0\<rparr>\<rparr>
                         in Returns (storeState (finalStoreErr io) s4)))))"


subsection \<open>A concrete chain to run the scraper on\<close>

text \<open>
  Four transactions of block 100.  The events of transactions 1, 2 and 4 unpack to a
  sale for 1 ETH; the data of transaction 3 does not unpack.  The receipt of
  transaction 1 has no logs, that of transaction 2 has two ERC-721 transfer logs, that
  of transaction 4 has one.  The event of transaction 5 names an ERC-20 currency whose
  contract does not answer; its receipt has no logs.
\<close>

definition transferLog :: "256 word \<Rightarrow> Log" where
  "transferLog tokenId =
     \<lparr>logAddress = 0xBC4CA0EdA7647A8aB7C2061c2E118A18a936f13D,
      logTopics = [transferTopic, 0x11, 0x22, tokenId], logData = [], logBlockNumber = 100\<rparr>"

definition exampleEth :: eth_client where
  "exampleEth = \<lparr>
     ethBlockNumber = Inr 200,
     ethCodeAt = (\<lambda>a b. Inr (if 50 \<le> b then ''code'' else [])),
     ethBlockByNumber = (\<lambda>b. Inr \<lparr>blkTime = 1600000000, blkTransactions = []\<rparr>),
     ethNetworkID = Inr 1,
     ethSender = (\<lambda>chainID trx. Inl ''invalid chain id for signer''),
     ethTransactionByHash = (\<lambda>h. Inr False),
     ethTransactionReceipt = (\<lambda>h.
        if h = 2 then Inr \<lparr>rcLogs = [transferLog 7, transferLog 8], rcContractAddress = 0\<rparr>
        else if h = 4 then Inr \<lparr>rcLogs = [transferLog 9], rcContractAddress = 0\<rparr>
        else Inr \<lparr>rcLogs = [], rcContractAddress = 0\<rparr>)\<rparr>"

text \<open>
  The same chain with three transactions in block 50, the block from which the
  contracts have code: a call, and two contract creations whose receipts name the
  addresses \<open>0xAA01\<close> and \<open>0xAA02\<close>.  The sender of a transaction is recovered on
  chain 1.
\<close>

definition creationBlock :: ChainBlock where
  "creationBlock = \<lparr>blkTime = 1600000000,
     blkTransactions = [\<lparr>txTo = Some 0x11, txHash = 0x51\<rparr>, \<lparr>txTo = None, txHash = 0x52\<rparr>,
                        \<lparr>txTo = None, txHash = 0x53\<rparr>]\<rparr>"

definition creationEth :: eth_client where
  "creationEth = exampleEth\<lparr>
     ethBlockByNumber := (\<lambda>b. if b = 50 then Inr creationBlock
                               else Inr \<lparr>blkTime = 1600000000, blkTransactions = []\<rparr>),
     ethSender := (\<lambda>chainID trx. if chainID = 1 then Inr 0xC0FFEE
                                   else Inl ''invalid chain id for signer''),
     ethTransactionReceipt := (\<lambda>h.
        if h = 0x52 then Inr \<lparr>rcLogs = [], rcContractAddress = 0xAA01\<rparr>
        else if h = 0x53 then Inr \<lparr>rcLogs = [], rcContractAddress = 0xAA02\<rparr>
        else Inl ''not found'')\<rparr>"

definition exampleContracts :: contract_bindings where
  "exampleContracts = \<lparr>
     unpackEvProfit = (\<lambda>d.
        if d = ''profit'' then Inr \<lparr>evCurrency = 0, evAmount = 1000000000000000000\<rparr>
        else if d = ''profit in tokens''
        then Inr \<lparr>evCurrency = 0xA0b86991c6218b36c1d19D4a2e9Eb0cE3606eB48, evAmount = 1000000\<rparr>
        else Inl ''abi: cannot unmarshal''),
     erc20Bind = (\<lambda>a. None),
     erc20Symbol = (\<lambda>a b. Inl ''no contract code at given address''),
     erc20Decimals = (\<lambda>a b. Inl ''no contract code at given address''),
     erc721Bind = (\<lambda>a. None),
     erc721ParseTransfer = (\<lambda>l. Inr \<lparr>tlFrom = ucast (logTopics l ! 1), tlTo = ucast (logTopics l ! 2),
                                        tlTokenId = uint (logTopics l ! 3)\<rparr>),
     erc721CompatBind = (\<lambda>a. None),
     erc721CompatParseTransfer = (\<lambda>l. Inl ''abi: wrong number of topics''),
     erc721MetadataBind = (\<lambda>a. None),
     erc721Name = (\<lambda>a b. Inr ''Example''),
     erc721Symbol = (\<lambda>a b. Inr ''EX''),
     erc721TokenURI = (\<lambda>a b i. Inr [])\<rparr>"

definition exampleClass :: NFTClass where
  "exampleClass = \<lparr>clsAddress = 0xBC4CA0EdA7647A8aB7C2061c2E118A18a936f13D, clsSymbol = ''EX'',
     clsName = ''Example'', clsBlockchain = ETHEREUM, clsContractType = x2y2NFTContractType\<rparr>"

definition exampleDb :: datastore where
  "exampleDb = \<lparr>
     dsGetNFTClass = (\<lambda>a chain. Found exampleClass),
     dsSetNFTClass = (\<lambda>c. None),
     dsGetNFT = (\<lambda>a chain tokenId. Found \<lparr>nftNFTClass = exampleClass, nftTokenID = tokenId,
                    nftCreationTime = zeroTime, nftCreatorAddress = 0, nftURI = [],
                    nftAttributes = None\<rparr>),
     dsSetNFT = (\<lambda>n. None),
     dsGetBlockTime = (\<lambda>b. 1650000000),
     dsGetAsset = (\<lambda>a chain. zeroAsset\<lparr>Symbol := ''ETH'', Decimals := 18, Blockchain := chain\<rparr>)\<rparr>"

definition exampleTxIO :: tx_io where
  "exampleTxIO = \<lparr>ioEth = exampleEth, ioContracts = exampleContracts, ioDb = exampleDb,
     ioLib = exampleLib, ioSendWins = True\<rparr>"

definition exampleDec :: "(real, real) decimal_ops" where
  "exampleDec = \<lparr>decQuoPow10 = (\<lambda>a d. real_of_int a / 10 ^ d), decMul = (\<lambda>x y. x * y),
     decFromString = (\<lambda>s. if s = ''2040.0910'' then Inr (20400910 / 10000)
                          else if s = ''0.5'' then Inr (1 / 2)
                          else if s = ''1'' then Inr 1 else Inl ''can't convert to decimal''),
     decFloat64 = (\<lambda>x. x)\<rparr>"

definition exampleTx :: "256 word \<Rightarrow> 64 word \<Rightarrow> string \<Rightarrow> EthFilteredTx" where
  "exampleTx h i d =
     \<lparr>BlockNum = 100, TXIndex = i, TXHash = h,
      TxLogs = [\<lparr>logAddress = 0x74312363e45DCaBA76c59ec49a7Aa8A65a67EeD3, logTopics = [],
                 logData = d, logBlockNumber = 100\<rparr>]\<rparr>"

definition tx1 :: EthFilteredTx where "tx1 = exampleTx 1 3 ''profit''"
definition tx2 :: EthFilteredTx where "tx2 = exampleTx 2 5 ''profit''"
definition tx3 :: EthFilteredTx where "tx3 = exampleTx 3 8 ''junk''"
definition tx4 :: EthFilteredTx where "tx4 = exampleTx 4 9 ''profit''"
definition tx5 :: EthFilteredTx where "tx5 = exampleTx 5 11 ''profit in tokens''"

definition exampleTick :: "EthFilteredTx list \<Rightarrow> tick_io" where
  "exampleTick txs = \<lparr>loadConfigErr = None, loadStateErr = None,
     filterTXs = (\<lambda>c. Inr \<lparr>TXs = txs, ResLastBlockNum = 190\<rparr>),
     txIO = (\<lambda>tx. exampleTxIO), storeErrAt = (\<lambda>tx. None), finalStoreErr = None\<rparr>"

definition exampleScraper :: "X2Y2ScraperConfig \<Rightarrow> real X2Y2Scraper" where
  "exampleScraper c = \<lparr>sConf = c, sState = defX2Y2State, sExchange = ''X2Y2'',
     storedConf = c,
     storedState = \<lparr>LastBlockNum = 100, LastTxIndex = 0, LastErr = [], ErrCounter = 0\<rparr>,
     sentTrades = [], logLines = []\<rparr>"


subsection \<open>Reading the outcome of a loop step and of a tick\<close>

text \<open>
  The scraper on entry to the loop body for \<open>tx\<close>, with the cursor set on \<open>tx\<close> and
  the trades of the \<^verbatim>\<open>processTx\<close> call on the channel; and the scraper after the
  body has moved past \<open>tx\<close> and written the state.
\<close>

definition entered :: "EthFilteredTx \<Rightarrow> 'f NFTTrade list \<Rightarrow> 'f X2Y2Scraper \<Rightarrow> 'f X2Y2Scraper" where
  "entered tx sent s =
     s\<lparr>sState := (sState s)\<lparr>LastBlockNum := BlockNum tx, LastTxIndex := TXIndex tx, LastErr := []\<rparr>,
       sentTrades := sentTrades s @ sent\<rparr>"

definition advanced :: "EthFilteredTx \<Rightarrow> 'f NFTTrade list \<Rightarrow> 'f X2Y2Scraper \<Rightarrow> 'f X2Y2Scraper" where
  "advanced tx sent s =
     s\<lparr>sState := (sState s)\<lparr>LastBlockNum := BlockNum tx, LastTxIndex := TXIndex tx + 1,
                               LastErr := [], ErrCounter := 0\<rparr>,
       storedState := (sState s)\<lparr>LastBlockNum := BlockNum tx, LastTxIndex := TXIndex tx + 1,
                               LastErr := [], ErrCounter := 0\<rparr>,
       sentTrades := sentTrades s @ sent\<rparr>"

text \<open>The error a tick returned, and the scraper it left, if it returned at all.\<close>

definition tickError :: "(go_error option \<times> 'f X2Y2Scraper) run \<Rightarrow> go_error option option" where
  "tickError r = (case r of Returns (err, s) \<Rightarrow> Some err | _ \<Rightarrow> None)"

definition tickScraper :: "(go_error option \<times> 'f X2Y2Scraper) run \<Rightarrow> 'f X2Y2Scraper option" where
  "tickScraper r = (case r of Returns (err, s) \<Rightarrow> Some s | _ \<Rightarrow> None)"

text \<open>
  The scraper after the body has moved past \<open>tx\<close> in memory, before the state is
  written.
\<close>

definition movedPast :: "EthFilteredTx \<Rightarrow> 'f NFTTrade list \<Rightarrow> 'f X2Y2Scraper \<Rightarrow> 'f X2Y2Scraper" where
  "movedPast tx sent s =
     s\<lparr>sState := (sState s)\<lparr>LastBlockNum := BlockNum tx, LastTxIndex := TXIndex tx + 1,
                               LastErr := [], ErrCounter := 0\<rparr>,
       sentTrades := sentTrades s @ sent\<rparr>"

text \<open>The same scraper with another value of \<^verbatim>\<open>skip_on_error\<close>, in memory and in the store.\<close>

definition withSkipOnErr :: "bool \<Rightarrow> 'f X2Y2Scraper \<Rightarrow> 'f X2Y2Scraper" where
  "withSkipOnErr b s =
     s\<lparr>sConf := (sConf s)\<lparr>SkipOnErr := b\<rparr>, storedConf := (storedConf s)\<lparr>SkipOnErr := b\<rparr>\<rparr>"

definition map_run :: "('a \<Rightarrow> 'b) \<Rightarrow> 'a run \<Rightarrow> 'b run" where
  "map_run f r = (case r of Panics p \<Rightarrow> Panics p | Diverges \<Rightarrow> Diverges | Returns x \<Rightarrow> Returns (f x))"

text \<open>
  What \<^verbatim>\<open>CodeAt\<close> says of a block: the call succeeds and the code is non-empty, or it
  succeeds and the code is empty.
\<close>

definition hasCode :: "(64 word \<Rightarrow> go_error + string) \<Rightarrow> 64 word \<Rightarrow> bool" where
  "hasCode codeAt m \<longleftrightarrow> (case codeAt m of Inl err \<Rightarrow> False | Inr code \<Rightarrow> code \<noteq> [])"

definition noCode :: "(64 word \<Rightarrow> go_error + string) \<Rightarrow> 64 word \<Rightarrow> bool" where
  "noCode codeAt m \<longleftrightarrow> codeAt m = Inr []"


section \<open>Properties of the aggregation filters\<close>

lemmas filter_defs =
  FilterMA_def FilterMAIR_def FilterVWAP_def FilterVWAPIR_def FilterMEDIR_def
  FilterMA_step_def FilterMAIR_step_def FilterVWAP_step_def FilterIR_step_def
  filterResult_def carry_def withTrades_def Let_def

text \<open>
  Claim C2.  The claim: no price filter emits a point for an empty block that comes
  before the first block with trades.  The code: \<^verbatim>\<open>FilterMA\<close> starts from a pointer
  to a zero struct and appends that struct, stamped with the block's time, for such a
  block; \<^verbatim>\<open>FilterMAIR\<close> and \<^verbatim>\<open>FilterVWAP\<close> start from a nil pointer and write
  through it, which panics.  Only \<^verbatim>\<open>FilterVWAPIR\<close> and \<^verbatim>\<open>FilterMEDIR\<close> guard
  the write and emit nothing.  Evaluated on the one-block list of an empty block.
\<close>

theorem leading_empty_block_behaviour:
  "FilterMA ops [\<lparr>TimeStamp = ts, Trades = []\<rparr>] asset bs =
       Inr ([zeroFilterPoint\<lparr>Time := blockTime ts\<rparr>], [])
   \<and> FilterMAIR ops [\<lparr>TimeStamp = ts, Trades = []\<rparr>] asset bs = Inl NilDereference
   \<and> FilterVWAP ops [\<lparr>TimeStamp = ts, Trades = []\<rparr>] asset bs = Inl NilDereference
   \<and> FilterVWAPIR pos ops [\<lparr>TimeStamp = ts, Trades = []\<rparr>] asset bs = Inr ([], [])
   \<and> FilterMEDIR pos ops [\<lparr>TimeStamp = ts, Trades = []\<rparr>] asset bs = Inr ([], [])"
  by (simp add: filter_defs)

text \<open>
  What does hold for the two guarded filters: a prefix of empty blocks leaves the loop
  state as it was at the start, so the result is that of the remaining blocks.
\<close>

lemma FilterIR_skips_leading_empty:
  "\<forall>b \<in> set pre. Trades b = [] \<Longrightarrow>
     overBlocks (FilterIR_step pos ops asset bs) ([], None, []) (pre @ rest) =
     overBlocks (FilterIR_step pos ops asset bs) ([], None, []) rest"
  by (induction pre) (simp_all add: FilterIR_step_def)

lemma FilterIR_step_length:
  "FilterIR_step pos ops asset bs (fps, l, md) b = Inr (fps', l', md') \<Longrightarrow>
     length fps' \<le> Suc (length fps)"
  by (auto simp: FilterIR_step_def carry_def Let_def split: if_splits option.splits)

lemma FilterIR_overBlocks_length:
  "overBlocks (FilterIR_step pos ops asset bs) (fps, l, md) blocks = Inr (fps', l', md') \<Longrightarrow>
     length fps' \<le> length fps + length blocks"
proof (induction blocks arbitrary: fps l md)
  case Nil
  then show ?case by simp
next
  case (Cons b blocks)
  from Cons.prems obtain fps1 l1 md1
    where step: "FilterIR_step pos ops asset bs (fps, l, md) b = Inr (fps1, l1, md1)"
      and rest: "overBlocks (FilterIR_step pos ops asset bs) (fps1, l1, md1) blocks = Inr (fps', l', md')"
    by (auto split: sum.splits)
  from FilterIR_step_length [OF step] Cons.IH [OF rest] show ?case by simp
qed

lemma FilterVWAPIR_length:
  "FilterVWAPIR pos ops blocks asset bs = Inr (fps, md) \<Longrightarrow> length fps \<le> length blocks"
  using FilterIR_overBlocks_length [of pos ops asset bs "[]" None "[]" blocks]
  by (auto simp: FilterVWAPIR_def filterResult_def split: sum.splits)

text \<open>
  Claim C8.  \<^verbatim>\<open>FilterVWAP\<close> on \<open>[B1, B2, B3]\<close>, where \<open>B1\<close> and \<open>B3\<close> have trades and
  \<open>B2\<close> has none, and the filter object yields a point for \<open>B1\<close> and for \<open>B3\<close>:
  exactly three points come out; the second is the first with its time set to \<open>B2\<close>'s
  stamp, so it has the first one's value; the first keeps \<open>B1\<close>'s stamp, since the
  list holds copies and the write through \<^verbatim>\<open>lastfp\<close> reaches none of them.
\<close>

theorem FilterVWAP_three_blocks:
  assumes "Trades B1 \<noteq> []" and "Trades B2 = []" and "Trades B3 \<noteq> []"
    and "runFilter ops asset bs B1 (TTime (hd (Trades B1))) = Some p1"
    and "runFilter ops asset bs B3 (TTime (hd (Trades B3))) = Some p3"
  shows "\<exists>q1 q2 q3 md. FilterVWAP ops [B1, B2, B3] asset bs = Inr ([q1, q2, q3], md)
     \<and> Value q1 = Value p1 \<and> Time q1 = blockTime (TimeStamp B1)
     \<and> q2 = q1\<lparr>Time := blockTime (TimeStamp B2)\<rparr>
     \<and> Value q2 = Value q1 \<and> Time q2 = blockTime (TimeStamp B2)
     \<and> Value q3 = Value p3 \<and> Time q3 = blockTime (TimeStamp B3)"
  using assms by (simp add: filter_defs)

theorem FilterVWAP_three_blocks_witness:
  "\<exists>q1 q2 q3 md.
     FilterVWAP vwapOps
       [\<lparr>TimeStamp = 60000000000, Trades = [mkTrade 10 1 50, mkTrade 20 3 55]\<rparr>,
        \<lparr>TimeStamp = 120000000000, Trades = []\<rparr>,
        \<lparr>TimeStamp = 180000000000, Trades = [mkTrade 30 2 170]\<rparr>] zeroAsset 60
       = Inr ([q1, q2, q3], md)
     \<and> Value q1 = 35 / 2 \<and> Time q1 = 60 \<and> Value q2 = 35 / 2 \<and> Time q2 = 120
     \<and> Value q3 = 30 \<and> Time q3 = 180"
proof -
  let ?B1 = "\<lparr>TimeStamp = 60000000000, Trades = [mkTrade 10 1 50, mkTrade 20 3 55]\<rparr>"
  let ?B2 = "\<lparr>TimeStamp = 120000000000, Trades = ([] :: real Trade list)\<rparr>"
  let ?B3 = "\<lparr>TimeStamp = 180000000000, Trades = [mkTrade 30 2 170]\<rparr>"
  let ?p1 = "\<lparr>FPAsset = zeroAsset, Value = 35 / 2, FPName = ''VWAP'', Time = 50,
          FirstTrade = zeroTrade, LastTrade = zeroTrade\<rparr> :: real FilterPoint"
  let ?p3 = "\<lparr>FPAsset = zeroAsset, Value = 30, FPName = ''VWAP'', Time = 170,
          FirstTrade = zeroTrade, LastTrade = zeroTrade\<rparr> :: real FilterPoint"
  have h1: "runFilter vwapOps zeroAsset 60 ?B1 (TTime (hd (Trades ?B1))) = Some ?p1"
    by (simp add: runFilter_def vwapOps_def mkTrade_def zeroTrade_def)
  have h3: "runFilter vwapOps zeroAsset 60 ?B3 (TTime (hd (Trades ?B3))) = Some ?p3"
    by (simp add: runFilter_def vwapOps_def mkTrade_def zeroTrade_def)
  from FilterVWAP_three_blocks [of ?B1 ?B2 ?B3 vwapOps zeroAsset 60 ?p1 ?p3, OF _ _ _ h1 h3]
  obtain q1 q2 q3 md where
    "FilterVWAP vwapOps [?B1, ?B2, ?B3] zeroAsset 60 = Inr ([q1, q2, q3], md)"
    "Value q1 = 35 / 2" "Time q1 = 60" "Value q2 = Value q1" "Time q2 = 120"
    "Value q3 = 30" "Time q3 = 180"
    by (auto simp: blockTime_def)
  then show ?thesis by auto
qed

section \<open>Properties of the swap adapters\<close>

text \<open>
  Claim C6.  The claim: for the Bancor adapter's \<^verbatim>\<open>getSwapData\<close> and for the Dforce
  adapter's \<^verbatim>\<open>getSwapDataDforce\<close> alike, price = to_amount / from_amount and
  volume = from_amount.  The Dforce adapter does the opposite: a swap of 2 USDx (the
  input, what the trader gives) into 4 USDC (the output, what the trader gets) yields
  volume 4 and price 1/2, where the convention asks for volume 2 and price 2.
\<close>

theorem getSwapDataDforce_convention_counterexample:
  "getSwapDataDforce exactDiv exactScale noTokenCalls dforceTokens dforceSwapExample =
     Inr (\<lparr>dsSymbol = ''USDC'', dsForeignName = ''USDC-USDx'', dsVolume = 4, dsPrice = 1 / 2,
            dsBuyToken = usdcAsset, dsSellToken = usdxAsset, dsErr = None\<rparr>, dforceTokens)
   \<and> exactScale (InputAmount dforceSwapExample) (Decimals usdxAsset) = 2
   \<and> exactScale (OutputAmount dforceSwapExample) (Decimals usdcAsset) = 4
   \<and> \<not> price_convention exactDiv 2 4 (1 / 2, 4)"
  by (simp add: getSwapDataDforce_def loadTokenData_def dforceTokens_def dforceSwapExample_def
      usdxAddress_def usdcAddress_def usdcAsset_def usdxAsset_def exactScale_def exactDiv_def
      price_convention_def)

text \<open>
  Claim C6, amended.  \<^verbatim>\<open>getSwapData\<close> follows the convention on the swap it is
  given: price = to_amount / from_amount, volume = from_amount.
  \<^verbatim>\<open>getSwapDataDforce\<close>, whenever it returns, follows it with the two sides
  exchanged: the bought token is the swap's output and the sold one its input, the
  volume is the scaled output amount, and the price is the scaled input amount divided
  by the scaled output amount.
\<close>

theorem swap_price_conventions:
  "price_convention fdiv (SwapFromAmount swap) (SwapToAmount swap) (getSwapData fdiv swap)
   \<and> (getSwapDataDforce fdiv scale rpc tokens s = Inr (r, tokens') \<longrightarrow>
        (\<exists>e1 t1. loadTokenData rpc tokens (Output s) = Inr (dsBuyToken r, e1, t1)
            \<and> loadTokenData rpc t1 (Input s) = Inr (dsSellToken r, dsErr r, tokens'))
        \<and> price_convention fdiv (scale (OutputAmount s) (Decimals (dsBuyToken r)))
             (scale (InputAmount s) (Decimals (dsSellToken r))) (dsPrice r, dsVolume r))"
  by (auto simp: price_convention_def getSwapData_def getSwapDataDforce_def Let_def
      split: sum.splits prod.splits)

theorem swap_price_conventions_witness:
  "price_convention exactDiv 2 4 (getSwapData exactDiv bancorSwapExample)
   \<and> getSwapData exactDiv bancorSwapExample = (2, 2)
   \<and> (\<exists>r t. getSwapDataDforce exactDiv exactScale noTokenCalls dforceTokens dforceSwapExample
              = Inr (r, t)
          \<and> price_convention exactDiv 4 2 (dsPrice r, dsVolume r)
          \<and> dsPrice r = 1 / 2 \<and> dsVolume r = 4)"
proof -
  let ?r = "\<lparr>dsSymbol = ''USDC'', dsForeignName = ''USDC-USDx'', dsVolume = 4, dsPrice = 1 / 2,
            dsBuyToken = usdcAsset, dsSellToken = usdxAsset, dsErr = None\<rparr> :: real dforce_swap_data"
  have run: "getSwapDataDforce exactDiv exactScale noTokenCalls dforceTokens dforceSwapExample
      = Inr (?r, dforceTokens)"
    by (simp add: getSwapDataDforce_def loadTokenData_def dforceTokens_def dforceSwapExample_def
        usdxAddress_def usdcAddress_def usdcAsset_def usdxAsset_def exactScale_def exactDiv_def)
  from swap_price_conventions [of exactDiv bancorSwapExample exactScale noTokenCalls
      dforceTokens dforceSwapExample ?r dforceTokens] run
  have "price_convention exactDiv 2 4 (getSwapData exactDiv bancorSwapExample)"
    and "price_convention exactDiv 4 2 (dsPrice ?r, dsVolume ?r)"
    by (simp_all add: bancorSwapExample_def dforceSwapExample_def usdcAsset_def usdxAsset_def
        exactScale_def)
  moreover have "getSwapData exactDiv bancorSwapExample = (2, 2)"
    by (simp add: getSwapData_def bancorSwapExample_def exactDiv_def)
  ultimately show ?thesis using run by simp
qed

text \<open>
  Claim C10.  The claim: for \<open>[a, sentinel]\<close> with \<open>a\<close> not the sentinel, the base
  token of \<^verbatim>\<open>GetPair\<close>'s result carries the WETH address and the symbol WETH, and
  the quote token carries \<open>a\<close>.  The code: the branch for \<^verbatim>\<open>address[1]\<close> assigns the
  WETH address to \<^verbatim>\<open>address[0]\<close>, so the base token keeps the sentinel address and
  the quote token loses \<open>a\<close> for the WETH address.  Evaluated on \<open>[BNT, sentinel]\<close>.
\<close>

theorem GetPair_second_sentinel:
  "GetPair rpc ex [bntAddress, nativeSentinel] =
     Inr \<lparr>EPSymbol = symbolOrEmpty rpc bntAddress,
           ForeignName = symbolOrEmpty rpc bntAddress @ ''-WETH'',
           Exchange = ex, Verified = False,
           UnderlyingPair =
             \<lparr>QuoteToken = \<lparr>Symbol = symbolOrEmpty rpc bntAddress, Name = [],
                 Address = wethAddress, Decimals = 0, Blockchain = ETHEREUM\<rparr>,
               BaseToken = \<lparr>Symbol = ''WETH'', Name = [],
                 Address = nativeSentinel, Decimals = 0, Blockchain = ETHEREUM\<rparr>\<rparr>\<rparr>
   \<and> nativeSentinel \<noteq> wethAddress \<and> wethAddress \<noteq> bntAddress"
  by (simp add: GetPair_def bntAddress_def nativeSentinel_def wethAddress_def)

text \<open>
  The first branch, for comparison, does what the second was meant to do: with the
  sentinel in front, the quote token carries the WETH address and the symbol WETH.
\<close>

lemma GetPair_first_sentinel:
  "GetPair rpc ex [nativeSentinel, bntAddress] =
     Inr \<lparr>EPSymbol = ''WETH'',
           ForeignName = ''WETH-'' @ symbolOrEmpty rpc bntAddress,
           Exchange = ex, Verified = False,
           UnderlyingPair =
             \<lparr>QuoteToken = \<lparr>Symbol = ''WETH'', Name = [],
                 Address = wethAddress, Decimals = 0, Blockchain = ETHEREUM\<rparr>,
               BaseToken = \<lparr>Symbol = symbolOrEmpty rpc bntAddress, Name = [],
                 Address = bntAddress, Decimals = 0, Blockchain = ETHEREUM\<rparr>\<rparr>\<rparr>"
  by (simp add: GetPair_def bntAddress_def nativeSentinel_def wethAddress_def)

section \<open>Properties of Close\<close>

text \<open>
  Claim C9.  The claim: for every adapter a second \<^verbatim>\<open>close()\<close>, made after the first
  has completed, returns an already-closed error and has no other effect.  The code:
  \<^verbatim>\<open>BancorScraper.Close\<close> never tests \<^verbatim>\<open>closed\<close>; a scraper whose main loop has
  ended returns nil from the first call, and the second call closes the closed
  channel \<^verbatim>\<open>shutdown\<close>, which panics.
\<close>

theorem Bancor_Close_twice:
  "Bancor_mainLoop_end newBancorScraper =
     Inr (newBancorScraper\<lparr>bcError := Some ''Main loop terminated by Close().'',
            bcClosed := True, bcShutdownDone := True\<rparr>)
   \<and> fst (Bancor_Close (newBancorScraper\<lparr>bcError := Some ''Main loop terminated by Close().'',
            bcClosed := True, bcShutdownDone := True\<rparr>)) = Returned None
   \<and> fst (Bancor_Close (snd (Bancor_Close
        (newBancorScraper\<lparr>bcError := Some ''Main loop terminated by Close().'',
            bcClosed := True, bcShutdownDone := True\<rparr>)))) = Panicked CloseOfClosedChannel"
  by (simp add: Bancor_mainLoop_end_def Bancor_cleanup_def Bancor_Close_def
      newBancorScraper_def Let_def)

text \<open>The same from any state: whatever the first call did, the second one panics.\<close>

lemma Bancor_Close_shutdown: "bcShutdown (snd (Bancor_Close s))"
  by (simp add: Bancor_Close_def Let_def)

lemma Bancor_Close_second_panics:
  "fst (Bancor_Close (snd (Bancor_Close s))) = Panicked CloseOfClosedChannel"
  using Bancor_Close_shutdown [of s] by (simp add: Bancor_Close_def Let_def)

text \<open>
  \<^verbatim>\<open>X2Y2Scraper.Close\<close> returns before the main loop has set \<^verbatim>\<open>closed\<close>: a second
  call that comes before that panics, one that comes after it gets the error.
\<close>

lemma X2Y2_Close_twice_at_once:
  "\<not> tsClosed s \<Longrightarrow> \<not> tsShutdown s \<Longrightarrow>
     fst (X2Y2_Close s) = Returned None
     \<and> fst (X2Y2_Close (snd (X2Y2_Close s))) = Panicked CloseOfClosedChannel"
  by (simp add: X2Y2_Close_def)

lemma X2Y2_Close_after_exit:
  "X2Y2_mainLoop_exit (snd (X2Y2_Close s)) = Inr s' \<Longrightarrow>
     X2Y2_Close s' = (Returned (Some ''scraper already closed''), s')"
  by (auto simp: X2Y2_mainLoop_exit_def X2Y2_Close_def Let_def split: if_splits)

text \<open>
  \<^verbatim>\<open>ZBScraper.Close\<close> does what the claim says when the first call got past the
  connection's close and the wait: by then \<^verbatim>\<open>cleanup\<close> has set \<^verbatim>\<open>closed\<close>.
\<close>

lemma ZB_Close_twice:
  "\<not> zbClosed s \<Longrightarrow> \<not> zbShutdownDone s \<Longrightarrow> ZB_Close None readErr s = (Returned r, s') \<Longrightarrow>
     ZB_Close wsClose' readErr' s' = (Returned (Some ''ZBScraper: Already closed''), s')"
  by (auto simp: ZB_Close_def ZB_mainLoop_exit_def ZB_cleanup_def Let_def
      split: if_splits sum.splits)

section \<open>Properties of the X2Y2 adapter\<close>

subsection \<open>readNFTAttr\<close>

lemma HasPrefix_append: "HasPrefix s p \<longleftrightarrow> (\<exists>r. s = p @ r)"
  unfolding HasPrefix_def by (metis append_eq_conv_conj)

lemma data_uri_shape:
  assumes "HasPrefix uri ''data:''"
  shows "uri \<noteq> [] \<and> \<not> HasPrefix uri ''ipfs://''"
proof -
  from assms obtain r where "uri = ''data:'' @ r"
    by (auto simp: HasPrefix_append)
  then show ?thesis by (simp add: HasPrefix_def)
qed

text \<open>
  What the instance answers on the three data URLs: the base64 one and the escaped one
  decode to the JSON text; the one with the JSON text put in as it stands is refused,
  its braces and quotes not being URL characters.
\<close>

lemma dataurl_DecodeString_base64: "dataurl_DecodeString exampleDataURI = Inr exampleJSON"
  by code_simp

lemma dataurl_DecodeString_escaped: "dataurl_DecodeString escapedDataURI = Inr exampleJSON"
  by code_simp

lemma dataurl_DecodeString_plain:
  "dataurl_DecodeString plainDataURI = Inl ''invalid data character''"
  by code_simp

text \<open>
  Claim C7.  The claim: for a token URI that begins with \<^verbatim>\<open>data:\<close> and whose decoded
  payload is a valid JSON object, \<^verbatim>\<open>readNFTAttr\<close> returns without error and the
  caller sees the decoded members.  The code hands the map, not a pointer to it, to
  \<^verbatim>\<open>json.Unmarshal\<close>, which refuses any target that is not a pointer: for every such
  URI, whatever the object, the call returns that error and no attribute.
\<close>

theorem readNFTAttr_data_uri:
  assumes "HasPrefix uri ''data:''" and "dataurlDecode lib uri = Inr d"
    and "jsonParse lib d = Some (JObject kvs)"
  shows "readNFTAttr lib conf uri = Inl ''json: Unmarshal(non-pointer map[string]interface {})''"
  using assms data_uri_shape [of uri]
  by (simp add: readNFTAttr_def json_Unmarshal_def Let_def)

theorem readNFTAttr_data_uri_witness:
  "HasPrefix exampleDataURI ''data:''
   \<and> dataurlDecode exampleLib exampleDataURI = Inr exampleJSON
   \<and> jsonParse exampleLib exampleJSON = Some (JObject [(''name'', JString ''x'')])
   \<and> readNFTAttr exampleLib defX2Y2Conf exampleDataURI
        = Inl ''json: Unmarshal(non-pointer map[string]interface {})''"
proof -
  have 1: "HasPrefix exampleDataURI ''data:''"
    by (simp add: HasPrefix_def exampleDataURI_def)
  have 2: "dataurlDecode exampleLib exampleDataURI = Inr exampleJSON"
    by (simp add: exampleLib_def dataurl_DecodeString_base64)
  have 3: "jsonParse exampleLib exampleJSON = Some (JObject [(''name'', JString ''x'')])"
    by (simp add: exampleLib_def)
  from readNFTAttr_data_uri [OF 1 2 3, of defX2Y2Conf] 1 2 3 show ?thesis by simp
qed

text \<open>
  The same on the escaped data URL.  The URL with the JSON text as it stands does not
  get as far as \<^verbatim>\<open>json.Unmarshal\<close>: the call returns the error of the URL decoder.
\<close>

lemma readNFTAttr_escaped_data_uri:
  "readNFTAttr exampleLib defX2Y2Conf escapedDataURI
     = Inl ''json: Unmarshal(non-pointer map[string]interface {})''"
proof -
  have "HasPrefix escapedDataURI ''data:''"
    by (simp add: HasPrefix_def escapedDataURI_def)
  moreover have "dataurlDecode exampleLib escapedDataURI = Inr exampleJSON"
    by (simp add: exampleLib_def dataurl_DecodeString_escaped)
  moreover have "jsonParse exampleLib exampleJSON = Some (JObject [(''name'', JString ''x'')])"
    by (simp add: exampleLib_def)
  ultimately show ?thesis
    using data_uri_shape [of escapedDataURI]
    by (simp add: readNFTAttr_def json_Unmarshal_def Let_def)
qed

lemma readNFTAttr_plain_data_uri:
  "readNFTAttr exampleLib defX2Y2Conf plainDataURI = Inl ''invalid data character''"
proof -
  have "HasPrefix plainDataURI ''data:''"
    by (simp add: HasPrefix_def plainDataURI_def)
  moreover have "dataurlDecode exampleLib plainDataURI = Inl ''invalid data character''"
    by (simp add: exampleLib_def dataurl_DecodeString_plain)
  ultimately show ?thesis
    using data_uri_shape [of plainDataURI]
    by (simp add: readNFTAttr_def Let_def)
qed

text \<open>No call on a data URL succeeds, whatever the libraries answer.\<close>

lemma readNFTAttr_data_uri_fails:
  "HasPrefix uri ''data:'' \<Longrightarrow> \<exists>err. readNFTAttr lib conf uri = Inl err"
  using data_uri_shape [of uri]
  by (auto simp: readNFTAttr_def json_Unmarshal_def Let_def split: sum.splits option.splits)

text \<open>
  With a pointer handed to \<^verbatim>\<open>json.Unmarshal\<close>, as the HTTP branch hands one to its
  decoder, the members of the object reach the caller.
\<close>

lemma json_Unmarshal_pointer:
  "json_Unmarshal exampleLib exampleJSON True (Some Map.empty) = (None, Some [''name'' \<mapsto> JString ''x''])"
  by (simp add: json_Unmarshal_def json_into_map_def exampleLib_def)

text \<open>
  The HTTP branch passes a pointer, and there the members do reach the caller: the
  same JSON text served over HTTP yields the map with \<open>name\<close> bound to \<open>x\<close>.
\<close>

lemma readNFTAttr_http:
  "\<exists>m. readNFTAttr exampleLib defX2Y2Conf ''https://example.org/1'' = Inr (Some m)
       \<and> m ''name'' = Some (JString ''x'')"
  by (simp add: readNFTAttr_def exampleLib_def exampleJSON_def HasPrefix_def json_Decode_def
      json_into_map_def defX2Y2Conf_def)

subsection \<open>processTx\<close>

lemmas example_chain_defs = exampleTxIO_def exampleEth_def exampleContracts_def exampleDb_def
  exampleDec_def exampleTx_def transferLog_def exampleLib_def

lemmas processTx_defs = processTx_def txPrelude_def findERC721Transfers_def transferOfLog_def
  parseTransferLog_def withMetadata_def fetchERC20Metadata_def calcUSDPrice_def findPrice_def
  notifyTrade_def createOrReadNFTClass_def createOrReadNFT_def readNFTAttr_def
  List.map_filter_def Let_def

text \<open>The five transactions of the example chain, run through \<^verbatim>\<open>processTx\<close>.\<close>

lemma processTx_tx1: "processTx dec exampleTxIO conf ex tx1 = Returns (True, None, [])"
  by (simp add: processTx_defs example_chain_defs tx1_def)

lemma processTx_tx2: "processTx dec exampleTxIO conf ex tx2 = Returns (True, None, [])"
  by (simp add: processTx_defs example_chain_defs tx2_def)

lemma processTx_tx3:
  "processTx dec exampleTxIO conf ex tx3 = Returns (False, Some ''abi: cannot unmarshal'', [])"
  by (simp add: processTx_defs example_chain_defs tx3_def)

lemma processTx_tx5:
  "processTx dec exampleTxIO conf ex tx5 =
     Returns (False, Some ''no contract code at given address'', [])"
  by (simp add: processTx_defs example_chain_defs tx5_def)

lemma processTx_tx4:
  "\<exists>trade. processTx exampleDec exampleTxIO defX2Y2Conf ''X2Y2'' tx4 = Returns (False, None, [trade])
     \<and> TradePrice trade = 1000000000000000000 \<and> nftTokenID (TradeNFT trade) = 9
     \<and> TradePriceUSD trade = 20400910 / 10000"
  by (simp add: processTx_defs example_chain_defs tx4_def defX2Y2Conf_def)

lemma notifyTrade_sent:
  "notifyTrade io conf ex tx transfer price usd cur = Some (err, sent) \<Longrightarrow>
     (err = None \<longrightarrow> length sent = 1) \<and> (err \<noteq> None \<longrightarrow> sent = [])"
  by (auto simp: notifyTrade_def Let_def split: sum.splits option.splits if_splits)

text \<open>
  The three ways \<^verbatim>\<open>processTx\<close> returns: with an error of the steps before the scan;
  skipping, when the receipt yields no transfer or more than one; or past the skip
  policy, with exactly one transfer, where a trade is sent if and only if no error
  follows.
\<close>

lemma processTx_cases:
  assumes "processTx dec io conf ex tx = Returns (skipped, err, sent)"
  shows "(\<exists>e. txPrelude io conf tx = Inr (Inl e) \<and> \<not> skipped \<and> err = Some e \<and> sent = [])
       \<or> (\<exists>ev receipt cs d. txPrelude io conf tx = Inr (Inr (ev, receipt, cs, d))
            \<and> length (findERC721Transfers (ioContracts io) (ioLib io) conf receipt) \<noteq> 1
            \<and> skipped \<and> err = None \<and> sent = [])
       \<or> (\<exists>ev receipt cs d. txPrelude io conf tx = Inr (Inr (ev, receipt, cs, d))
            \<and> length (findERC721Transfers (ioContracts io) (ioLib io) conf receipt) = 1
            \<and> \<not> skipped \<and> (err = None \<longrightarrow> length sent = 1) \<and> (err \<noteq> None \<longrightarrow> sent = []))"
proof (cases "txPrelude io conf tx")
  case (Inl p)
  with assms show ?thesis by (simp add: processTx_def)
next
  case (Inr r)
  show ?thesis
  proof (cases r)
    case (Inl e)
    with Inr assms show ?thesis by (auto simp: processTx_def)
  next
    case (Inr q)
    obtain ev receipt cs d where q: "q = (ev, receipt, cs, d)" by (cases q) auto
    let ?ts = "findERC721Transfers (ioContracts io) (ioLib io) conf receipt"
    have pre: "txPrelude io conf tx = Inr (Inr (ev, receipt, cs, d))"
      using \<open>txPrelude io conf tx = Inr r\<close> Inr q by simp
    consider "length ?ts = 0" | "1 < length ?ts" | "length ?ts = 1" by arith
    then show ?thesis
    proof cases
      case 1
      with pre assms show ?thesis by (auto simp: processTx_def Let_def)
    next
      case 2
      then have "?ts \<noteq> []" by auto
      with 2 pre assms show ?thesis by (auto simp: processTx_def Let_def)
    next
      case 3
      then have "?ts \<noteq> []" by auto
      with 3 pre assms
      have "\<not> skipped \<and> (err = None \<longrightarrow> length sent = 1) \<and> (err \<noteq> None \<longrightarrow> sent = [])"
        by (auto simp: processTx_def Let_def split: sum.splits option.splits prod.splits
            dest: notifyTrade_sent)
      with pre 3 show ?thesis by blast
    qed
  qed
qed

lemma processTx_error_no_trade:
  "processTx dec io conf ex tx = Returns (skipped, Some e, sent) \<Longrightarrow> sent = [] \<and> \<not> skipped"
  using processTx_cases [of dec io conf ex tx skipped "Some e" sent] by auto

lemma processTx_skips:
  assumes "txPrelude io conf tx = Inr (Inr (ev, receipt, cs, d))"
    and "length (findERC721Transfers (ioContracts io) (ioLib io) conf receipt) \<noteq> 1"
  shows "processTx dec io conf ex tx = Returns (True, None, [])"
proof -
  from assms(2) have "length (findERC721Transfers (ioContracts io) (ioLib io) conf receipt) = 0
      \<or> 1 < length (findERC721Transfers (ioContracts io) (ioLib io) conf receipt)"
    by arith
  with assms(1) show ?thesis by (auto simp: processTx_def Let_def)
qed

subsection \<open>The loop body\<close>

lemma txLoop_Cons_Returns:
  "ptx tx = Returns (skipped, err, sent) \<Longrightarrow>
   txLoop ptx sf s n (tx # txs) =
     (case (case err of None \<Rightarrow> Inr (entered tx sent s)
                      | Some e \<Rightarrow> onTxError tx e (sf tx) (entered tx sent s)) of
        Inl (err', s3) \<Rightarrow> Returns (err', s3, n)
      | Inr s3 \<Rightarrow>
          (case moveNext tx skipped (sf tx) s3 n of
             (Some err', s4, n') \<Rightarrow> Returns (Some err', s4, n')
           | (None, s4, n') \<Rightarrow> txLoop ptx sf s4 n' txs))"
  by (cases err) (simp_all add: entered_def Let_def)

lemma moveNext_entered:
  "moveNext tx skipped None (entered tx sent s) n =
     (None, advanced tx sent s, if skipped then n else n + 1)"
  by (simp add: moveNext_def storeState_def advanced_def entered_def Let_def)

lemma moveNext_entered_fails:
  "moveNext tx skipped (Some e) (entered tx sent s) n =
     (Some e, movedPast tx sent s, if skipped then n else n + 1)"
  by (simp add: moveNext_def storeState_def movedPast_def entered_def Let_def)

lemma onTxError_skip:
  "\<not> sint (ErrCounter (sState s) + 1) \<le> sint (MaxRetry (sConf s)) \<Longrightarrow>
   onTxError tx e sf (entered tx sent s) =
     Inr ((entered tx sent s)\<lparr>sState := (sState (entered tx sent s))\<lparr>ErrCounter := ErrCounter (sState s) + 1\<rparr>,
            logLines := logLines s @ [''SKIPPING PERMANENTLY!'']\<rparr>)"
  by (simp add: onTxError_def entered_def Let_def)

lemma moveNext_skip:
  "moveNext tx skipped None
     ((entered tx sent s)\<lparr>sState := (sState (entered tx sent s))\<lparr>ErrCounter := c\<rparr>, logLines := l\<rparr>) n =
     (None, (advanced tx sent s)\<lparr>logLines := l\<rparr>, if skipped then n else n + 1)"
  by (simp add: moveNext_def storeState_def advanced_def entered_def Let_def)

text \<open>
  A successful \<^verbatim>\<open>processTx\<close>: the counter is reset, the cursor moves to the next
  index, the state is written, and the loop goes on.  If the write fails, the tick
  ends with that error, the cursor moved in memory only.
\<close>

lemma txLoop_success_step:
  assumes "ptx tx = Returns (skipped, None, sent)" and "sf tx = None"
  shows "txLoop ptx sf s n (tx # txs) =
           txLoop ptx sf (advanced tx sent s) (if skipped then n else n + 1) txs"
  by (simp only: txLoop_Cons_Returns [of ptx tx skipped None sent, OF assms(1)] assms(2)
      moveNext_entered option.case sum.case prod.case)

lemma txLoop_success_store_fails:
  assumes "ptx tx = Returns (skipped, None, sent)" and "sf tx = Some e"
  shows "txLoop ptx sf s n (tx # txs) =
           Returns (Some e, movedPast tx sent s, if skipped then n else n + 1)"
  by (simp only: txLoop_Cons_Returns [of ptx tx skipped None sent, OF assms(1)] assms(2)
      moveNext_entered_fails option.case sum.case prod.case)

text \<open>
  A failed \<^verbatim>\<open>processTx\<close> within the retry budget: the counter goes up by one, the
  cursor stays on the transaction, the state is written and the tick ends with the
  error.
\<close>

lemma txLoop_retry_step:
  assumes "ptx tx = Returns (skipped, Some e, sent)" and "sf tx = None"
    and "sint (ErrCounter (sState s) + 1) \<le> sint (MaxRetry (sConf s))"
  shows "\<exists>s'. txLoop ptx sf s n (tx # txs) = Returns (Some e, s', n)
           \<and> LastBlockNum (sState s') = BlockNum tx \<and> LastTxIndex (sState s') = TXIndex tx
           \<and> ErrCounter (sState s') = ErrCounter (sState s) + 1
           \<and> storedState s' = sState s' \<and> sentTrades s' = sentTrades s @ sent"
  using assms by (simp add: onTxError_def storeState_def Let_def)

text \<open>
  A failed \<^verbatim>\<open>processTx\<close> beyond the budget: the warning is logged and the body goes
  on as after a success, whatever \<^verbatim>\<open>skip_on_error\<close> says.
\<close>

lemma txLoop_skip_step:
  assumes "ptx tx = Returns (skipped, Some e, sent)" and "sf tx = None"
    and "\<not> sint (ErrCounter (sState s) + 1) \<le> sint (MaxRetry (sConf s))"
  shows "txLoop ptx sf s n (tx # txs) =
           txLoop ptx sf ((advanced tx sent s)\<lparr>logLines := logLines s @ [''SKIPPING PERMANENTLY!'']\<rparr>)
             (if skipped then n else n + 1) txs"
  by (simp only: txLoop_Cons_Returns [of ptx tx skipped "Some e" sent, OF assms(1)] assms(2)
      onTxError_skip [OF assms(3)] moveNext_skip option.case sum.case prod.case)

text \<open>
  The hash of a transaction as the error messages print it, for the small hashes of
  the example chain: 63 zeros and one digit.
\<close>

lemma hexDigits_zero: "hexDigits k 0 = replicate k CHR ''0''"
  by (induction k) (simp_all add: hexDigit_def replicate_append_same)

lemma Hash_Hex_small:
  "unat h < 16 \<Longrightarrow> Hash_Hex h = ''0x'' @ replicate 63 CHR ''0'' @ [hexDigit (unat h)]"
proof -
  assume "unat h < 16"
  moreover have "hexDigits (Suc 63) (unat h)
      = hexDigits 63 (unat h div 16) @ [hexDigit (unat h mod 16)]"
    by (rule hexDigits.simps)
  ultimately show ?thesis by (simp add: Hash_Hex_def hexDigits_zero)
qed

lemma Hash_Hex_tx3: "Hash_Hex (TXHash tx3) = ''0x'' @ replicate 63 CHR ''0'' @ ''3''"
  by (simp add: Hash_Hex_small tx3_def exampleTx_def hexDigit_def)

lemma Hash_Hex_tx5: "Hash_Hex (TXHash tx5) = ''0x'' @ replicate 63 CHR ''0'' @ ''5''"
  by (simp add: Hash_Hex_small tx5_def exampleTx_def hexDigit_def)


subsection \<open>The skip policy (claim C3)\<close>

text \<open>
  Claim C3.  The claim: for every transaction whose receipt yields no parsed ERC-721
  transfer, or more than one, \<^verbatim>\<open>processTx\<close> returns without error and with
  \<^verbatim>\<open>skipped = true\<close>, and the loop moves the cursor past the transaction.  The code
  resolves the currency of the event before it scans the receipt: transaction 5 of the
  example chain has a receipt without logs, hence without transfers, but its event
  names an ERC-20 currency whose contract does not answer, so \<^verbatim>\<open>processTx\<close> returns
  that error, and the tick ends with the cursor still on the transaction.
\<close>

theorem processTx_error_before_scan:
  "ethTransactionReceipt (ioEth exampleTxIO) (TXHash tx5) = Inr \<lparr>rcLogs = [], rcContractAddress = 0\<rparr>
   \<and> findERC721Transfers (ioContracts exampleTxIO) (ioLib exampleTxIO) defX2Y2Conf
        \<lparr>rcLogs = [], rcContractAddress = 0\<rparr> = []
   \<and> processTx exampleDec exampleTxIO defX2Y2Conf ''X2Y2'' tx5
        = Returns (False, Some ''no contract code at given address'', [])
   \<and> BlockNum tx5 = 100 \<and> TXIndex tx5 = 11
   \<and> tickError (FetchTrades exampleDec (exampleTick [tx5]) (exampleScraper defX2Y2Conf))
        = Some (Some ''no contract code at given address'')
   \<and> map_option storedState
        (tickScraper (FetchTrades exampleDec (exampleTick [tx5]) (exampleScraper defX2Y2Conf)))
        = Some \<lparr>LastBlockNum = 100, LastTxIndex = 11,
             LastErr = ''unable to process trade transaction('' @ Hash_Hex (TXHash tx5)
                   @ ''): no contract code at given address'',
             ErrCounter = 1\<rparr>"
proof -
  have cursor: "BlockNum tx5 = 100" "TXIndex tx5 = 11"
    by (simp_all add: tx5_def exampleTx_def)
  have receipt: "ethTransactionReceipt (ioEth exampleTxIO) (TXHash tx5)
      = Inr \<lparr>rcLogs = [], rcContractAddress = 0\<rparr>"
    by (simp add: tx5_def exampleTx_def exampleTxIO_def exampleEth_def)
  have none: "findERC721Transfers (ioContracts exampleTxIO) (ioLib exampleTxIO) defX2Y2Conf
        \<lparr>rcLogs = [], rcContractAddress = 0\<rparr> = []"
    by (simp add: findERC721Transfers_def List.map_filter_def)
  have tick: "FetchTrades exampleDec (exampleTick [tx5]) (exampleScraper defX2Y2Conf)
      = Returns (Some ''no contract code at given address'',
          (exampleScraper defX2Y2Conf)
            \<lparr>sState := \<lparr>LastBlockNum = 100, LastTxIndex = 11,
                 LastErr = ''unable to process trade transaction('' @ Hash_Hex (TXHash tx5)
                   @ ''): no contract code at given address'',
                 ErrCounter = 1\<rparr>,
              storedState := \<lparr>LastBlockNum = 100, LastTxIndex = 11,
                 LastErr = ''unable to process trade transaction('' @ Hash_Hex (TXHash tx5)
                   @ ''): no contract code at given address'',
                 ErrCounter = 1\<rparr>,
              logLines := [''unable to process trade transaction('' @ Hash_Hex (TXHash tx5)
                   @ ''): no contract code at given address'']\<rparr>)"
    by (simp add: processTx_tx5 cursor FetchTrades_def loaded_def filterCriteria_def
        onTxError_def storeState_def exampleTick_def exampleScraper_def defX2Y2Conf_def Let_def)
  show ?thesis
    by (simp add: cursor receipt none processTx_tx5 tick tickError_def tickScraper_def)
qed

text \<open>
  Claim C3, amended.  For every transaction for which \<^verbatim>\<open>processTx\<close> gets as far as
  the scan of the receipt (the event unpacks, the transaction is found and not
  pending, the receipt is fetched, the currency is resolved) and whose receipt yields
  no parsed transfer or more than one: \<^verbatim>\<open>processTx\<close> returns \<^verbatim>\<open>skipped = true\<close> without
  error and sends no trade; the loop then resets the error counter, moves the cursor
  to the next index, writes the state and goes on with the next transaction (if the
  write fails, the tick ends with that error, the cursor moved in memory only).  And in
  every case \<^verbatim>\<open>processTx\<close> sends a trade only when exactly one transfer was parsed.
\<close>

theorem processTx_skip_policy:
  "(txPrelude io conf tx = Inr (Inr (ev, receipt, cs, d))
      \<and> length (findERC721Transfers (ioContracts io) (ioLib io) conf receipt) \<noteq> 1
    \<longrightarrow> processTx dec io conf ex tx = Returns (True, None, [])
       \<and> (ptx tx = processTx dec io conf ex tx \<longrightarrow>
            txLoop ptx sf s n (tx # txs) =
              (case sf tx of
                 None \<Rightarrow> txLoop ptx sf (advanced tx [] s) n txs
               | Some e \<Rightarrow> Returns (Some e, movedPast tx [] s, n))))
   \<and> LastBlockNum (sState (advanced tx [] s)) = BlockNum tx
   \<and> LastTxIndex (sState (advanced tx [] s)) = TXIndex tx + 1
   \<and> ErrCounter (sState (advanced tx [] s)) = 0
   \<and> storedState (advanced tx [] s) = sState (advanced tx [] s)
   \<and> sentTrades (advanced tx [] s) = sentTrades s
   \<and> sState (movedPast tx [] s) = sState (advanced tx [] s)
   \<and> storedState (movedPast tx [] s) = storedState s
   \<and> (processTx dec io conf ex tx = Returns (skipped, err, sent) \<and> sent \<noteq> []
       \<longrightarrow> (\<exists>ev receipt cs d. txPrelude io conf tx = Inr (Inr (ev, receipt, cs, d))
               \<and> length (findERC721Transfers (ioContracts io) (ioLib io) conf receipt) = 1
               \<and> \<not> skipped \<and> err = None))"
proof -
  have skip: "processTx dec io conf ex tx = Returns (True, None, [])"
    if "txPrelude io conf tx = Inr (Inr (ev, receipt, cs, d))"
      and "length (findERC721Transfers (ioContracts io) (ioLib io) conf receipt) \<noteq> 1"
    using that by (rule processTx_skips)
  have loop: "txLoop ptx sf s n (tx # txs) =
              (case sf tx of
                 None \<Rightarrow> txLoop ptx sf (advanced tx [] s) n txs
               | Some e \<Rightarrow> Returns (Some e, movedPast tx [] s, n))"
    if "ptx tx = Returns (True, None, [])"
  proof (cases "sf tx")
    case None
    from txLoop_success_step [of ptx tx True "[]" sf s n txs, OF that None] None
    show ?thesis by simp
  next
    case (Some e)
    from txLoop_success_store_fails [of ptx tx True "[]" sf e s n txs, OF that Some] Some
    show ?thesis by simp
  qed
  have sent: "\<exists>ev receipt cs d. txPrelude io conf tx = Inr (Inr (ev, receipt, cs, d))
               \<and> length (findERC721Transfers (ioContracts io) (ioLib io) conf receipt) = 1
               \<and> \<not> skipped \<and> err = None"
    if "processTx dec io conf ex tx = Returns (skipped, err, sent)" and "sent \<noteq> []"
    using processTx_cases [OF that(1)] that(2) by auto
  from skip loop sent show ?thesis
    by (auto simp: advanced_def movedPast_def)
qed

theorem processTx_skip_policy_witness:
  "length (findERC721Transfers exampleContracts exampleLib defX2Y2Conf
             \<lparr>rcLogs = [transferLog 7, transferLog 8], rcContractAddress = 0\<rparr>) = 2
   \<and> processTx exampleDec exampleTxIO defX2Y2Conf ''X2Y2'' tx2 = Returns (True, None, [])
   \<and> txLoop (\<lambda>t. processTx exampleDec exampleTxIO defX2Y2Conf ''X2Y2'' t) (\<lambda>t. None)
        (exampleScraper defX2Y2Conf) 0 [tx2]
      = Returns (None, advanced tx2 [] (exampleScraper defX2Y2Conf), 0)
   \<and> LastTxIndex (sState (advanced tx2 [] (exampleScraper defX2Y2Conf))) = 6"
proof -
  let ?rc = "\<lparr>rcLogs = [transferLog 7, transferLog 8], rcContractAddress = 0\<rparr>"
  let ?ev = "\<lparr>evCurrency = 0, evAmount = 1000000000000000000\<rparr>"
  have pre: "txPrelude exampleTxIO defX2Y2Conf tx2 = Inr (Inr (?ev, ?rc, ''ETH'', 18))"
    by (simp add: txPrelude_def example_chain_defs tx2_def)
  have len: "length (findERC721Transfers (ioContracts exampleTxIO) (ioLib exampleTxIO)
               defX2Y2Conf ?rc) = 2"
    by (simp add: processTx_defs example_chain_defs)
  note policy = processTx_skip_policy [where io = exampleTxIO and conf = defX2Y2Conf and tx = tx2
      and ev = ?ev and receipt = ?rc and cs = "''ETH''" and d = 18 and dec = exampleDec
      and ex = "''X2Y2''"
      and ptx = "\<lambda>t. processTx exampleDec exampleTxIO defX2Y2Conf ''X2Y2'' t"
      and sf = "\<lambda>t. None" and s = "exampleScraper defX2Y2Conf" and n = 0 and txs = "[]"]
  from policy pre len
  have run: "processTx exampleDec exampleTxIO defX2Y2Conf ''X2Y2'' tx2 = Returns (True, None, [])"
    and loop: "txLoop (\<lambda>t. processTx exampleDec exampleTxIO defX2Y2Conf ''X2Y2'' t) (\<lambda>t. None)
        (exampleScraper defX2Y2Conf) 0 [tx2]
      = Returns (None, advanced tx2 [] (exampleScraper defX2Y2Conf), 0)"
    and index: "LastTxIndex (sState (advanced tx2 [] (exampleScraper defX2Y2Conf))) = TXIndex tx2 + 1"
    by (simp_all del: txLoop.simps add: txLoop.simps(1))
  have "TXIndex tx2 + 1 = 6" by (simp add: tx2_def exampleTx_def)
  with run loop index len show ?thesis by (simp add: exampleTxIO_def)
qed


subsection \<open>The error counter (claim C4)\<close>

lemma onTxError_Inl:
  "onTxError tx e sf s = Inl (err', s') \<Longrightarrow> err' \<noteq> None"
  by (auto simp: onTxError_def Let_def storeState_def split: if_splits option.splits)

lemma moveNext_None:
  "moveNext tx skipped sf s n = (None, s', n') \<Longrightarrow>
     ErrCounter (sState s') = 0 \<and> storedState s' = sState s'"
  by (auto simp: moveNext_def Let_def storeState_def split: option.splits)

text \<open>
  A loop that has run through a non-empty list of transactions without returning an
  error leaves the counter at 0, in memory and in the store.
\<close>

lemma txLoop_done:
  "txLoop ptx sf s n txs = Returns (None, s', n') \<Longrightarrow> txs \<noteq> [] \<Longrightarrow>
     ErrCounter (sState s') = 0 \<and> storedState s' = sState s'"
proof (induction txs arbitrary: s n)
  case Nil
  then show ?case by simp
next
  case (Cons tx txs)
  from Cons.prems(1) obtain skipped err sent where r: "ptx tx = Returns (skipped, err, sent)"
    by (cases "ptx tx") auto
  note body = txLoop_Cons_Returns [of ptx tx skipped err sent sf s n txs, OF r]
  from Cons.prems(1) obtain s3 where
    s3: "(case err of None \<Rightarrow> Inr (entered tx sent s)
                    | Some e \<Rightarrow> onTxError tx e (sf tx) (entered tx sent s)) = Inr s3"
    unfolding body
    by (cases err; cases "onTxError tx (the err) (sf tx) (entered tx sent s)")
       (auto dest: onTxError_Inl)
  from Cons.prems(1) s3 obtain s4 n4 where
    m: "moveNext tx skipped (sf tx) s3 n = (None, s4, n4)"
    and rest: "txLoop ptx sf s4 n4 txs = Returns (None, s', n')"
    unfolding body
    by (cases "moveNext tx skipped (sf tx) s3 n") (auto split: option.splits)
  show ?case
  proof (cases txs)
    case Nil
    with rest have "s' = s4" by simp
    with moveNext_None [OF m] show ?thesis by simp
  next
    case (Cons a list)
    with Cons.IH [OF rest] show ?thesis by simp
  qed
qed

text \<open>
  Claim C4.  The claim: after any tick that contained a successful \<^verbatim>\<open>processTx\<close>
  call, the persisted \<^verbatim>\<open>count_of_error\<close> is 0.  The counter counts the consecutive
  failures at the cursor, so a failure that follows a success in the same tick sets it
  to 1: in the tick over transactions 1 and 3 of the example chain, \<^verbatim>\<open>processTx\<close>
  succeeds on the first (it skips it) and fails on the second, and the state written
  last has the counter at 1.
\<close>

theorem FetchTrades_success_then_failure:
  "processTx exampleDec exampleTxIO defX2Y2Conf ''X2Y2'' tx1 = Returns (True, None, [])
   \<and> processTx exampleDec exampleTxIO defX2Y2Conf ''X2Y2'' tx3
        = Returns (False, Some ''abi: cannot unmarshal'', [])
   \<and> tickError (FetchTrades exampleDec (exampleTick [tx1, tx3]) (exampleScraper defX2Y2Conf))
        = Some (Some ''abi: cannot unmarshal'')
   \<and> map_option storedState
        (tickScraper (FetchTrades exampleDec (exampleTick [tx1, tx3]) (exampleScraper defX2Y2Conf)))
        = Some \<lparr>LastBlockNum = 100, LastTxIndex = 8,
             LastErr = ''unable to process trade transaction('' @ Hash_Hex (TXHash tx3)
                   @ ''): abi: cannot unmarshal'',
             ErrCounter = 1\<rparr>"
proof -
  have cursor: "BlockNum tx1 = 100" "TXIndex tx1 = 3" "BlockNum tx3 = 100" "TXIndex tx3 = 8"
    by (simp_all add: tx1_def tx3_def exampleTx_def)
  have tick: "FetchTrades exampleDec (exampleTick [tx1, tx3]) (exampleScraper defX2Y2Conf)
      = Returns (Some ''abi: cannot unmarshal'',
          (exampleScraper defX2Y2Conf)
            \<lparr>sState := \<lparr>LastBlockNum = 100, LastTxIndex = 8,
                 LastErr = ''unable to process trade transaction('' @ Hash_Hex (TXHash tx3)
                   @ ''): abi: cannot unmarshal'',
                 ErrCounter = 1\<rparr>,
              storedState := \<lparr>LastBlockNum = 100, LastTxIndex = 8,
                 LastErr = ''unable to process trade transaction('' @ Hash_Hex (TXHash tx3)
                   @ ''): abi: cannot unmarshal'',
                 ErrCounter = 1\<rparr>,
              logLines := [''unable to process trade transaction('' @ Hash_Hex (TXHash tx3)
                   @ ''): abi: cannot unmarshal'']\<rparr>)"
    by (simp add: processTx_tx1 processTx_tx3 cursor FetchTrades_def loaded_def filterCriteria_def
        onTxError_def moveNext_def storeState_def exampleTick_def exampleScraper_def
        defX2Y2Conf_def Let_def)
  show ?thesis
    by (simp add: processTx_tx1 processTx_tx3 tick tickError_def tickScraper_def)
qed

text \<open>
  Claim C4, amended.  After any tick that returns without error and whose filter
  returned at least one transaction (so every \<^verbatim>\<open>processTx\<close> call of the tick succeeded
  or was skipped for good, and every state write succeeded), the persisted
  \<^verbatim>\<open>count_of_error\<close> is 0.
\<close>

theorem FetchTrades_done:
  assumes "FetchTrades dec io s = Returns (None, s')"
    and "filterTXs io (filterCriteria (loaded s)) = Inr res" and "TXs res \<noteq> []"
  shows "ErrCounter (storedState s') = 0"
proof -
  from assms(1,2) obtain s3 n where
    loop: "txLoop (\<lambda>tx. processTx dec (txIO io tx) (sConf (loaded s)) (sExchange (loaded s)) tx)
             (storeErrAt io) (loaded s) 0 (TXs res) = Returns (None, s3, n)"
    and fin: "storeState (finalStoreErr io)
                (s3\<lparr>sState := (sState s3)\<lparr>LastBlockNum := ResLastBlockNum res + 1, LastTxIndex := 0\<rparr>\<rparr>)
              = (None, s')"
    by (auto simp: FetchTrades_def Let_def split: option.splits sum.splits run.splits prod.splits)
  from txLoop_done [OF loop assms(3)] fin show ?thesis
    by (auto simp: storeState_def split: option.splits)
qed

theorem FetchTrades_done_witness:
  "tickError (FetchTrades exampleDec (exampleTick [tx3, tx1])
      ((exampleScraper (defX2Y2Conf\<lparr>MaxRetry := 2\<rparr>))
         \<lparr>storedState := \<lparr>LastBlockNum = 100, LastTxIndex = 8, LastErr = ''e'', ErrCounter = 2\<rparr>\<rparr>))
     = Some None
   \<and> map_option (\<lambda>s. ErrCounter (storedState s))
        (tickScraper (FetchTrades exampleDec (exampleTick [tx3, tx1])
          ((exampleScraper (defX2Y2Conf\<lparr>MaxRetry := 2\<rparr>))
             \<lparr>storedState := \<lparr>LastBlockNum = 100, LastTxIndex = 8, LastErr = ''e'', ErrCounter = 2\<rparr>\<rparr>)))
     = Some 0"
proof -
  let ?s = "(exampleScraper (defX2Y2Conf\<lparr>MaxRetry := 2\<rparr>))
         \<lparr>storedState := \<lparr>LastBlockNum = 100, LastTxIndex = 8, LastErr = ''e'', ErrCounter = 2\<rparr>\<rparr>"
  let ?io = "exampleTick [tx3, tx1]"
  obtain s' where tick: "FetchTrades exampleDec ?io ?s = Returns (None, s')"
    by (simp add: processTx_tx1 processTx_tx3 FetchTrades_def loaded_def filterCriteria_def
        onTxError_def moveNext_def storeState_def exampleTick_def exampleScraper_def
        defX2Y2Conf_def Let_def)
  have txs: "filterTXs ?io (filterCriteria (loaded ?s)) = Inr \<lparr>TXs = [tx3, tx1], ResLastBlockNum = 190\<rparr>"
    by (simp add: exampleTick_def)
  from FetchTrades_done [OF tick txs] have "ErrCounter (storedState s') = 0" by simp
  with tick show ?thesis by (simp add: tickError_def tickScraper_def)
qed

subsection \<open>The retry budget and skip\_on\_error (claim C1)\<close>

text \<open>
  Claim C1.  The claim: when \<^verbatim>\<open>processTx\<close> fails and the counter exceeds
  \<^verbatim>\<open>max_retry\<close>, the loop skips the transaction if \<^verbatim>\<open>skip_on_error\<close> is set, and
  otherwise the error is fatal and the cursor never moves past the transaction.  The
  code never reads \<^verbatim>\<open>skip_on_error\<close>.  With \<^verbatim>\<open>max_retry = 0\<close> and
  \<^verbatim>\<open>skip_on_error = false\<close>, a tick over transaction 3 of the example chain, on which
  \<^verbatim>\<open>processTx\<close> fails, logs the warning, moves the cursor past the transaction
  (to index 9 in the loop, to the next block range at the end of the tick), counts one
  trade without having sent any, and returns no error.
\<close>

theorem FetchTrades_skip_on_error_unset:
  "SkipOnErr (defX2Y2Conf\<lparr>MaxRetry := 0, SkipOnErr := False\<rparr>) = False
   \<and> processTx exampleDec exampleTxIO (defX2Y2Conf\<lparr>MaxRetry := 0, SkipOnErr := False\<rparr>) ''X2Y2'' tx3
        = Returns (False, Some ''abi: cannot unmarshal'', [])
   \<and> TXIndex tx3 = 8
   \<and> txLoop (\<lambda>t. processTx exampleDec exampleTxIO (defX2Y2Conf\<lparr>MaxRetry := 0, SkipOnErr := False\<rparr>) ''X2Y2'' t)
        (\<lambda>t. None) (exampleScraper (defX2Y2Conf\<lparr>MaxRetry := 0, SkipOnErr := False\<rparr>)) 0 [tx3]
      = Returns (None,
          (exampleScraper (defX2Y2Conf\<lparr>MaxRetry := 0, SkipOnErr := False\<rparr>))
            \<lparr>sState := \<lparr>LastBlockNum = 100, LastTxIndex = 9, LastErr = [], ErrCounter = 0\<rparr>,
              storedState := \<lparr>LastBlockNum = 100, LastTxIndex = 9, LastErr = [], ErrCounter = 0\<rparr>,
              logLines := [''SKIPPING PERMANENTLY!'']\<rparr>, 1)
   \<and> FetchTrades exampleDec (exampleTick [tx3])
        (exampleScraper (defX2Y2Conf\<lparr>MaxRetry := 0, SkipOnErr := False\<rparr>))
      = Returns (None,
          (exampleScraper (defX2Y2Conf\<lparr>MaxRetry := 0, SkipOnErr := False\<rparr>))
            \<lparr>sState := \<lparr>LastBlockNum = 191, LastTxIndex = 0, LastErr = [], ErrCounter = 0\<rparr>,
              storedState := \<lparr>LastBlockNum = 191, LastTxIndex = 0, LastErr = [], ErrCounter = 0\<rparr>,
              logLines := [''SKIPPING PERMANENTLY!'']\<rparr>)"
proof -
  have cursor: "BlockNum tx3 = 100" "TXIndex tx3 = 8"
    by (simp_all add: tx3_def exampleTx_def)
  have loop: "txLoop (\<lambda>t. processTx exampleDec exampleTxIO (defX2Y2Conf\<lparr>MaxRetry := 0, SkipOnErr := False\<rparr>) ''X2Y2'' t)
        (\<lambda>t. None) (exampleScraper (defX2Y2Conf\<lparr>MaxRetry := 0, SkipOnErr := False\<rparr>)) 0 [tx3]
      = Returns (None,
          (exampleScraper (defX2Y2Conf\<lparr>MaxRetry := 0, SkipOnErr := False\<rparr>))
            \<lparr>sState := \<lparr>LastBlockNum = 100, LastTxIndex = 9, LastErr = [], ErrCounter = 0\<rparr>,
              storedState := \<lparr>LastBlockNum = 100, LastTxIndex = 9, LastErr = [], ErrCounter = 0\<rparr>,
              logLines := [''SKIPPING PERMANENTLY!'']\<rparr>, 1)"
    by (simp add: processTx_tx3 cursor onTxError_def moveNext_def storeState_def
        exampleScraper_def defX2Y2Conf_def defX2Y2State_def Let_def)
  have tick: "FetchTrades exampleDec (exampleTick [tx3])
        (exampleScraper (defX2Y2Conf\<lparr>MaxRetry := 0, SkipOnErr := False\<rparr>))
      = Returns (None,
          (exampleScraper (defX2Y2Conf\<lparr>MaxRetry := 0, SkipOnErr := False\<rparr>))
            \<lparr>sState := \<lparr>LastBlockNum = 191, LastTxIndex = 0, LastErr = [], ErrCounter = 0\<rparr>,
              storedState := \<lparr>LastBlockNum = 191, LastTxIndex = 0, LastErr = [], ErrCounter = 0\<rparr>,
              logLines := [''SKIPPING PERMANENTLY!'']\<rparr>)"
    by (simp add: processTx_tx3 cursor FetchTrades_def loaded_def filterCriteria_def
        onTxError_def moveNext_def storeState_def exampleTick_def exampleScraper_def
        defX2Y2Conf_def Let_def)
  show ?thesis
    by (simp only: loop tick processTx_tx3 cursor) simp
qed


text \<open>
  For every tick: the value of \<^verbatim>\<open>skip_on_error\<close> changes nothing but itself.  Each
  function below \<^verbatim>\<open>FetchTrades\<close> gives the same result for either value.
\<close>

lemma readNFTAttr_SkipOnErr [simp]:
  "readNFTAttr lib (conf\<lparr>SkipOnErr := b\<rparr>) uri = readNFTAttr lib conf uri"
  by (simp add: readNFTAttr_def cong: sum.case_cong option.case_cong prod.case_cong if_cong)

lemma transferOfLog_SkipOnErr [simp]:
  "transferOfLog cb lib (conf\<lparr>SkipOnErr := b\<rparr>) = transferOfLog cb lib conf"
  by (rule ext) (simp add: transferOfLog_def withMetadata_def
      cong: sum.case_cong option.case_cong prod.case_cong if_cong)

lemma findERC721Transfers_SkipOnErr [simp]:
  "findERC721Transfers cb lib (conf\<lparr>SkipOnErr := b\<rparr>) receipt = findERC721Transfers cb lib conf receipt"
  by (simp add: findERC721Transfers_def)

lemma findContractCreationInfo_SkipOnErr [simp]:
  "findContractCreationInfo eth (conf\<lparr>SkipOnErr := b\<rparr>) a = findContractCreationInfo eth conf a"
  by (simp add: findContractCreationInfo_def cong: sum.case_cong option.case_cong if_cong)

lemma notifyTrade_SkipOnErr [simp]:
  "notifyTrade io (conf\<lparr>SkipOnErr := b\<rparr>) ex tx t p u c = notifyTrade io conf ex tx t p u c"
  by (simp add: notifyTrade_def createOrReadNFT_def
      cong: sum.case_cong option.case_cong prod.case_cong if_cong db_read.case_cong)

lemma txPrelude_SkipOnErr [simp]:
  "txPrelude io (conf\<lparr>SkipOnErr := b\<rparr>) tx = txPrelude io conf tx"
  by (simp add: txPrelude_def fetchERC20Metadata_def
      cong: sum.case_cong option.case_cong prod.case_cong if_cong)

lemma processTx_SkipOnErr:
  "processTx dec io (conf\<lparr>SkipOnErr := b\<rparr>) ex tx = processTx dec io conf ex tx"
  by (simp add: processTx_def cong: sum.case_cong option.case_cong prod.case_cong if_cong)

lemma onTxError_SkipOnErr:
  "onTxError tx e sf (withSkipOnErr b s) =
     map_sum (map_prod id (withSkipOnErr b)) (withSkipOnErr b) (onTxError tx e sf s)"
  by (simp add: onTxError_def withSkipOnErr_def storeState_def Let_def split: option.splits)

lemma moveNext_SkipOnErr:
  "moveNext tx sk sf (withSkipOnErr b s) n =
     map_prod id (map_prod (withSkipOnErr b) id) (moveNext tx sk sf s n)"
  by (simp add: moveNext_def withSkipOnErr_def storeState_def Let_def split: option.splits)

lemma entered_SkipOnErr:
  "entered tx sent (withSkipOnErr b s) = withSkipOnErr b (entered tx sent s)"
  by (simp add: entered_def withSkipOnErr_def)

lemma txLoop_SkipOnErr:
  "txLoop ptx sf (withSkipOnErr b s) n txs =
     map_run (\<lambda>(e, s', n'). (e, withSkipOnErr b s', n')) (txLoop ptx sf s n txs)"
proof (induction txs arbitrary: s n)
  case Nil
  show ?case by (simp add: map_run_def)
next
  case (Cons tx txs)
  show ?case
  proof (cases "ptx tx")
    case (Panics p)
    then show ?thesis by (simp add: map_run_def)
  next
    case Diverges
    then show ?thesis by (simp add: map_run_def)
  next
    case (Returns r)
    obtain skipped err sent where r: "r = (skipped, err, sent)" by (cases r) auto
    with Returns have p: "ptx tx = Returns (skipped, err, sent)" by simp
    show ?thesis
      unfolding txLoop_Cons_Returns [of ptx tx skipped err sent, OF p] entered_SkipOnErr
      by (cases err; cases "onTxError tx (the err) (sf tx) (entered tx sent s)";
          cases "moveNext tx skipped (sf tx) (entered tx sent s) n")
         (auto simp: onTxError_SkipOnErr moveNext_SkipOnErr Cons.IH map_run_def
            split: sum.splits prod.splits option.splits)
  qed
qed

lemma storeState_SkipOnErr:
  "storeState sf (withSkipOnErr b s) = map_prod id (withSkipOnErr b) (storeState sf s)"
  by (simp add: storeState_def withSkipOnErr_def split: option.splits)

lemma sState_withSkipOnErr:
  "(withSkipOnErr b s)\<lparr>sState := x\<rparr> = withSkipOnErr b (s\<lparr>sState := x\<rparr>)"
  "sState (withSkipOnErr b s) = sState s"
  by (simp_all add: withSkipOnErr_def)

lemma FetchTrades_SkipOnErr:
  "FetchTrades dec io (withSkipOnErr b s) =
     map_run (\<lambda>(e, s'). (e, withSkipOnErr b s')) (FetchTrades dec io s)"
proof -
  have l: "loaded (withSkipOnErr b s) = withSkipOnErr b (loaded s)"
    by (simp add: loaded_def withSkipOnErr_def)
  have c: "filterCriteria (withSkipOnErr b (loaded s)) = filterCriteria (loaded s)"
    by (simp add: filterCriteria_def withSkipOnErr_def)
  have conf: "sConf (withSkipOnErr b (loaded s)) = (sConf (loaded s))\<lparr>SkipOnErr := b\<rparr>"
    and ex: "sExchange (withSkipOnErr b (loaded s)) = sExchange (loaded s)"
    by (simp_all add: withSkipOnErr_def)
  show ?thesis
  proof (cases "loadConfigErr io")
    case (Some e)
    then show ?thesis by (simp add: FetchTrades_def map_run_def)
  next
    case None
    note cfg = this
    show ?thesis
    proof (cases "loadStateErr io")
      case (Some e)
      with cfg show ?thesis
        by (simp add: FetchTrades_def map_run_def withSkipOnErr_def Let_def)
    next
      case None
      note st = this
      show ?thesis
      proof (cases "filterTXs io (filterCriteria (loaded s))")
        case (Inl e)
        with cfg st show ?thesis
          by (simp add: FetchTrades_def map_run_def l c Let_def)
      next
        case (Inr res)
        let ?ptx = "\<lambda>tx. processTx dec (txIO io tx) (sConf (loaded s)) (sExchange (loaded s)) tx"
        from cfg st Inr show ?thesis
          by (cases "txLoop ?ptx (storeErrAt io) (loaded s) 0 (TXs res)")
             (auto simp: FetchTrades_def map_run_def l c conf ex processTx_SkipOnErr
                txLoop_SkipOnErr storeState_SkipOnErr sState_withSkipOnErr Let_def
                split: option.splits prod.splits)
      qed
    qed
  qed
qed


subsection \<open>The search for the creation block (claim C5)\<close>

text \<open>
  A search that starts with \<open>lo = hi = 0\<close> on a block whose \<^verbatim>\<open>CodeAt\<close> call succeeds
  never returns: neither assignment changes \<open>lo\<close> or \<open>hi\<close>, and \<open>hi = lo + 1\<close> stays
  false.
\<close>

lemma creationSearch_stuck:
  assumes "creationSearch codeAt lo hi bn = Some y"
  shows "\<not> (lo = 0 \<and> hi = 0 \<and> (\<exists>c. codeAt 0 = Inr c))"
proof (rule creationSearch.raw_induct
    [where P = "\<lambda>codeAt lo hi bn y. \<not> (lo = 0 \<and> hi = 0 \<and> (\<exists>c. codeAt 0 = Inr c))", OF _ assms])
  fix f :: "(64 word \<Rightarrow> go_error + string) \<Rightarrow> 64 word \<Rightarrow> 64 word \<Rightarrow> 64 word \<Rightarrow> (go_error + 64 word) option"
  fix codeAt lo hi bn y
  assume IH: "\<And>codeAt lo hi bn y. f codeAt lo hi bn = Some y \<Longrightarrow>
      \<not> (lo = 0 \<and> hi = 0 \<and> (\<exists>c. codeAt 0 = Inr c))"
  assume step: "(if lo \<le> hi
      then case codeAt ((lo + hi) div 2) of Inl err \<Rightarrow> Some (Inl err)
           | Inr code \<Rightarrow>
               if (if length code = 0 then hi else (lo + hi) div 2) =
                  (if length code = 0 then (lo + hi) div 2 else lo) + 1
               then Some (Inr (if length code = 0 then hi else (lo + hi) div 2))
               else f codeAt
                     (if length code = 0 then (lo + hi) div 2 else lo)
                     (if length code = 0 then hi else (lo + hi) div 2)
                     ((lo + hi) div 2)
      else Some (Inr bn)) = Some y"
  show "\<not> (lo = 0 \<and> hi = 0 \<and> (\<exists>c. codeAt 0 = Inr c))"
  proof
    assume a: "lo = 0 \<and> hi = 0 \<and> (\<exists>c. codeAt 0 = Inr c)"
    then obtain c where c: "codeAt 0 = Inr c" by blast
    from a c step have "f codeAt 0 0 0 = Some y"
      by (simp split: if_splits)
    from IH [OF this] c show False by blast
  qed
qed

lemma creationSearch_head_zero:
  "codeAt 0 = Inr c \<Longrightarrow> creationSearch codeAt 0 0 bn = None"
  using creationSearch_stuck [of codeAt 0 0 bn]
  by (cases "creationSearch codeAt 0 0 bn") auto

text \<open>
  Claim C5.  The claim: the binary search of \<^verbatim>\<open>findContractCreationInfo\<close> terminates;
  if \<^verbatim>\<open>code_at\<close> is monotone and a block \<open>b \<ge> 1\<close> has code while \<open>b - 1\<close> has none, the
  search selects \<open>b\<close>; and if no transaction of that block has a receipt with the
  target as contract address, the zero address and the zero time are returned without
  error.  The loop \<^verbatim>\<open>for lo <= hi\<close> ends only through \<^verbatim>\<open>hi == lo + 1\<close> or an
  error of \<^verbatim>\<open>CodeAt\<close>.  On a chain whose head is block 0 it starts with
  \<open>lo = hi = 0\<close> and stays there: with \<^verbatim>\<open>UseArchiveNode\<close> set, if
  \<^verbatim>\<open>BlockNumber\<close> answers 0 and \<^verbatim>\<open>CodeAt\<close> succeeds on block 0, the call never
  returns.
\<close>

theorem findContractCreationInfo_head_zero:
  assumes "UseArchiveNode conf" and "ethBlockNumber eth = Inr 0"
    and "ethCodeAt eth a 0 = Inr code"
  shows "findContractCreationInfo eth conf a = None"
  using assms by (simp add: findContractCreationInfo_def creationSearch_head_zero)

theorem findContractCreationInfo_head_zero_witness:
  "UseArchiveNode (defX2Y2Conf\<lparr>UseArchiveNode := True\<rparr>)
   \<and> ethBlockNumber (exampleEth\<lparr>ethBlockNumber := Inr 0\<rparr>) = Inr 0
   \<and> ethCodeAt (exampleEth\<lparr>ethBlockNumber := Inr 0\<rparr>) 0xBC4CA0EdA7647A8aB7C2061c2E118A18a936f13D 0
        = Inr []
   \<and> findContractCreationInfo (exampleEth\<lparr>ethBlockNumber := Inr 0\<rparr>)
        (defX2Y2Conf\<lparr>UseArchiveNode := True\<rparr>) 0xBC4CA0EdA7647A8aB7C2061c2E118A18a936f13D = None"
proof -
  let ?eth = "exampleEth\<lparr>ethBlockNumber := Inr 0\<rparr>"
  let ?conf = "defX2Y2Conf\<lparr>UseArchiveNode := True\<rparr>"
  let ?a = "0xBC4CA0EdA7647A8aB7C2061c2E118A18a936f13D :: address"
  have 1: "UseArchiveNode ?conf" by simp
  have 2: "ethBlockNumber ?eth = Inr 0" by simp
  have 3: "ethCodeAt ?eth ?a 0 = Inr []" by (simp add: exampleEth_def)
  from findContractCreationInfo_head_zero [OF 1 2 3] 1 2 3 show ?thesis by simp
qed

subsection \<open>Where the search returns\<close>

text \<open>Word arithmetic for the midpoint and the exit test.\<close>

lemma unat_mid:
  fixes lo hi :: "64 word"
  assumes "unat lo + unat hi < 2 ^ 64"
  shows "unat ((lo + hi) div 2) = (unat lo + unat hi) div 2"
proof -
  from assms have "unat (lo + hi) = unat lo + unat hi"
    using unat_add_lem [of lo hi] by simp
  then show ?thesis by (simp add: unat_div)
qed

lemma word_succ_iff:
  fixes a b :: "64 word"
  assumes "unat b + 1 < 2 ^ 64"
  shows "a = b + 1 \<longleftrightarrow> unat a = unat b + 1"
proof -
  from assms have "unat (b + 1) = unat b + 1"
    using unat_add_lem [of b 1] by simp
  then show ?thesis by (metis word_unat_eq_iff)
qed

text \<open>
  From an interval of length at least 2 below \<open>2^63\<close> the loop returns, whatever
  \<^verbatim>\<open>CodeAt\<close> answers: the midpoint lies strictly between \<open>lo\<close> and \<open>hi\<close>, so either
  the exit test holds or the interval shrinks and keeps a length of at least 2.
\<close>

lemma creationSearch_returns:
  fixes lo hi :: "64 word"
  shows "unat lo + 2 \<le> unat hi \<Longrightarrow> unat hi < 2 ^ 63 \<Longrightarrow>
           \<exists>r. creationSearch codeAt lo hi bn = Some r"
proof (induction "unat hi - unat lo" arbitrary: lo hi bn rule: less_induct)
  case less
  let ?mid = "(lo + hi) div 2"
  from less.prems have sum: "unat lo + unat hi < 2 ^ 64" by simp
  have um: "unat ?mid = (unat lo + unat hi) div 2" by (rule unat_mid [OF sum])
  from um less.prems(1) have lm: "unat lo < unat ?mid" and mh: "unat ?mid < unat hi" by simp_all
  from mh less.prems(2) have msmall: "unat ?mid < 2 ^ 63" by simp
  from mh less.prems(2) have msucc: "unat ?mid + 1 < 2 ^ 64" by simp
  from less.prems have lsucc: "unat lo + 1 < 2 ^ 64" by simp
  from less.prems(1) have le: "lo \<le> hi" by (simp add: word_le_nat_alt)
  show ?case
  proof (cases "codeAt ?mid")
    case (Inl e)
    with le show ?thesis by (subst creationSearch.simps) simp
  next
    case (Inr code)
    show ?thesis
    proof (cases "length code = 0")
      case True
      show ?thesis
      proof (cases "hi = ?mid + 1")
        case True
        with Inr \<open>length code = 0\<close> le show ?thesis by (subst creationSearch.simps) simp
      next
        case False
        with word_succ_iff [OF msucc, of hi] mh have far: "unat ?mid + 2 \<le> unat hi" by simp
        from lm mh have "unat hi - unat ?mid < unat hi - unat lo" by simp
        from less.hyps [OF this far less.prems(2)]
        obtain r where "creationSearch codeAt ?mid hi ?mid = Some r" by blast
        with False Inr True le show ?thesis by (subst creationSearch.simps) simp
      qed
    next
      case False
      show ?thesis
      proof (cases "?mid = lo + 1")
        case True
        with Inr \<open>length code \<noteq> 0\<close> le show ?thesis by (subst creationSearch.simps) simp
      next
        case nexit: False
        with word_succ_iff [OF lsucc, of ?mid] lm have far: "unat lo + 2 \<le> unat ?mid" by simp
        from lm mh have "unat ?mid - unat lo < unat hi - unat lo" by simp
        from less.hyps [OF this far msmall]
        obtain r where "creationSearch codeAt lo ?mid ?mid = Some r" by blast
        with nexit Inr False le show ?thesis by (subst creationSearch.simps) simp
      qed
    qed
  qed
qed

text \<open>
  The two short chains.  With head 1 the first midpoint is block 0: without code there
  the loop leaves with block 1; with code there \<open>hi\<close> becomes 0 and the loop is stuck as
  with head 0.
\<close>

lemma creationSearch_head_zero_error:
  "codeAt 0 = Inl err \<Longrightarrow> creationSearch codeAt 0 0 bn = Some (Inl err)"
  by (subst creationSearch.simps) simp

lemma creationSearch_head_one:
  "creationSearch codeAt 0 1 bn =
     (case codeAt 0 of
        Inl err \<Rightarrow> Some (Inl err)
      | Inr code \<Rightarrow> if length code = 0 then Some (Inr 1) else None)"
proof (cases "codeAt 0")
  case (Inl e)
  then show ?thesis by (subst creationSearch.simps) simp
next
  case (Inr code)
  then show ?thesis
    by (subst creationSearch.simps) (simp add: creationSearch_head_zero)
qed

text \<open>
  So, on a chain whose head is below \<open>2^63\<close>, the search never returns in exactly two
  cases: the head is block 0 and \<^verbatim>\<open>CodeAt\<close> succeeds there, or the head is block 1
  and block 0 has code.  On every chain with a head from 2 on it returns.
\<close>

lemma creationSearch_from_zero:
  fixes head :: "64 word"
  assumes "unat head < 2 ^ 63"
  shows "creationSearch codeAt 0 head 0 = None \<longleftrightarrow>
           (head = 0 \<and> (\<exists>code. codeAt 0 = Inr code)) \<or> (head = 1 \<and> hasCode codeAt 0)"
proof -
  have "unat head = 0 \<or> unat head = 1 \<or> 2 \<le> unat head" by arith
  then consider "head = 0" | "head = 1" | "2 \<le> unat head"
    using word_unat_eq_iff [of head 0] word_unat_eq_iff [of head 1] by auto
  then show ?thesis
  proof cases
    case 1
    then show ?thesis
      by (cases "codeAt 0") (simp_all add: creationSearch_head_zero creationSearch_head_zero_error)
  next
    case 2
    then show ?thesis
      by (cases "codeAt 0") (simp_all add: creationSearch_head_one hasCode_def)
  next
    case 3
    then have "head \<noteq> 0" "head \<noteq> 1" by auto
    moreover from creationSearch_returns [of 0 head codeAt 0] 3 assms
    have "creationSearch codeAt 0 head 0 \<noteq> None" by auto
    ultimately show ?thesis by simp
  qed
qed

lemma findContractCreationInfo_diverges_iff:
  fixes head :: "64 word"
  assumes "UseArchiveNode conf" and "ethBlockNumber eth = Inr head" and "unat head < 2 ^ 63"
  shows "findContractCreationInfo eth conf a = None \<longleftrightarrow>
           (head = 0 \<and> (\<exists>code. ethCodeAt eth a 0 = Inr code))
           \<or> (head = 1 \<and> hasCode (ethCodeAt eth a) 0)"
  using creationSearch_from_zero [OF assms(3), of "ethCodeAt eth a"] assms(1,2)
  by (auto simp: findContractCreationInfo_def split: option.splits sum.splits)

lemma findContractCreationInfo_returns:
  fixes head :: "64 word"
  assumes "ethBlockNumber eth = Inr head" and "2 \<le> unat head" and "unat head < 2 ^ 63"
  shows "\<exists>r. findContractCreationInfo eth conf a = Some r"
proof (cases "UseArchiveNode conf")
  case True
  from assms(2) have "head \<noteq> 0" "head \<noteq> 1" by auto
  with findContractCreationInfo_diverges_iff [OF True assms(1,3), of a] show ?thesis by auto
next
  case False
  then show ?thesis by (simp add: findContractCreationInfo_def)
qed

subsection \<open>What the search selects\<close>

lemma not_both: "noCode codeAt m \<Longrightarrow> hasCode codeAt m \<Longrightarrow> False"
  by (simp add: noCode_def hasCode_def)

text \<open>
  The creation block lies in any interval that starts at a block without code and
  ends at one with code.
\<close>

lemma creation_block_between:
  fixes head b l h :: "64 word"
  assumes mono: "\<And>m n. m \<le> n \<Longrightarrow> n \<le> head \<Longrightarrow> hasCode codeAt m \<Longrightarrow> hasCode codeAt n"
    and b: "1 \<le> b" "b \<le> head" "hasCode codeAt b" "noCode codeAt (b - 1)"
    and inv: "l < h" "h \<le> head" "noCode codeAt l" "hasCode codeAt h"
  shows "unat l < unat b \<and> unat b \<le> unat h"
proof
  from inv(1,2) have lh: "l \<le> head" by simp
  show "unat l < unat b"
  proof (rule ccontr)
    assume "\<not> unat l < unat b"
    then have "b \<le> l" by (simp add: word_le_nat_alt)
    with lh have "hasCode codeAt l" using mono b(3) by blast
    with inv(3) show False by (rule not_both)
  qed
next
  from b(1) have ub: "unat (b - 1) = unat b - 1"
    by (simp add: unat_sub)
  from b(1) have b1: "1 \<le> unat b" by (simp add: word_le_nat_alt)
  show "unat b \<le> unat h"
  proof (rule ccontr)
    assume "\<not> unat b \<le> unat h"
    with ub b1 have "h \<le> b - 1" by (simp add: word_le_nat_alt)
    moreover from ub b(2) have "b - 1 \<le> head" by (simp add: word_le_nat_alt)
    ultimately have "hasCode codeAt (b - 1)" using mono inv(4) by blast
    with b(4) show False by (rule not_both)
  qed
qed

text \<open>
  The loop invariant: \<open>lo < hi \<le> head\<close>, no code at \<open>lo\<close>, code at \<open>hi\<close>.  The
  distance \<open>hi - lo\<close> shrinks with every round, and the loop leaves with the creation
  block.
\<close>

lemma creationSearch_finds:
  fixes head b :: "64 word"
  assumes calls: "\<And>m. m \<le> head \<Longrightarrow> hasCode codeAt m \<or> noCode codeAt m"
    and mono: "\<And>m n. m \<le> n \<Longrightarrow> n \<le> head \<Longrightarrow> hasCode codeAt m \<Longrightarrow> hasCode codeAt n"
    and b: "1 \<le> b" "b \<le> head" "hasCode codeAt b" "noCode codeAt (b - 1)"
    and small: "unat head < 2 ^ 63"
  shows "lo < hi \<Longrightarrow> hi \<le> head \<Longrightarrow> noCode codeAt lo \<Longrightarrow> hasCode codeAt hi \<Longrightarrow>
           creationSearch codeAt lo hi bn = Some (Inr b)"
proof (induction "unat hi - unat lo" arbitrary: lo hi bn rule: less_induct)
  case less
  let ?mid = "(lo + hi) div 2"
  from less.prems(1) have lt: "unat lo < unat hi" by (simp add: word_less_nat_alt)
  from less.prems(2) have hh: "unat hi \<le> unat head" by (simp add: word_le_nat_alt)
  from lt hh small have sum: "unat lo + unat hi < 2 ^ 64" by simp
  have um: "unat ?mid = (unat lo + unat hi) div 2" by (rule unat_mid [OF sum])
  from um lt have lm: "unat lo \<le> unat ?mid" and mh: "unat ?mid < unat hi" by simp_all
  from mh hh have mhead: "?mid \<le> head" by (simp add: word_le_nat_alt)
  from mh hh small have msucc: "unat ?mid + 1 < 2 ^ 64" by simp
  from lt hh small have lsucc: "unat lo + 1 < 2 ^ 64" by simp
  from less.prems(1) have le: "lo \<le> hi" by simp
  from calls [OF mhead] show ?case
  proof
    assume nc: "noCode codeAt ?mid"
    then have c: "codeAt ?mid = Inr []" by (simp add: noCode_def)
    from mh have mlt: "?mid < hi" by (simp add: word_less_nat_alt)
    from creation_block_between [OF mono b mlt less.prems(2) nc less.prems(4)]
    have bet: "unat ?mid < unat b" "unat b \<le> unat hi" by simp_all
    show ?thesis
    proof (cases "hi = ?mid + 1")
      case True
      with word_succ_iff [OF msucc, of hi] bet have "unat b = unat hi" by simp
      then have "b = hi" by (simp add: word_unat_eq_iff)
      with True c le show ?thesis by (subst creationSearch.simps) simp
    next
      case False
      with word_succ_iff [OF msucc, of hi] mh um lt have "unat lo < unat ?mid" by simp
      with mh have "unat hi - unat ?mid < unat hi - unat lo" by simp
      from less.hyps [OF this mlt less.prems(2) nc less.prems(4)]
      have "creationSearch codeAt ?mid hi ?mid = Some (Inr b)" .
      with False c le show ?thesis by (subst creationSearch.simps) simp
    qed
  next
    assume hc: "hasCode codeAt ?mid"
    then obtain code where c: "codeAt ?mid = Inr code" "code \<noteq> []"
      by (auto simp: hasCode_def split: sum.splits)
    from hc less.prems(3) have "?mid \<noteq> lo" by (auto dest: not_both)
    with lm have lmid: "unat lo < unat ?mid" by (simp add: word_unat_eq_iff)
    then have llt: "lo < ?mid" by (simp add: word_less_nat_alt)
    from creation_block_between [OF mono b llt mhead less.prems(3) hc]
    have bet: "unat lo < unat b" "unat b \<le> unat ?mid" by simp_all
    show ?thesis
    proof (cases "?mid = lo + 1")
      case True
      with word_succ_iff [OF lsucc, of ?mid] bet have "unat b = unat ?mid" by simp
      then have "b = ?mid" by (simp add: word_unat_eq_iff)
      with True c le show ?thesis by (subst creationSearch.simps) simp
    next
      case False
      from mh lmid have "unat ?mid - unat lo < unat hi - unat lo" by simp
      from less.hyps [OF this llt mhead less.prems(3) hc]
      have "creationSearch codeAt lo ?mid ?mid = Some (Inr b)" .
      with False c le show ?thesis by (subst creationSearch.simps) simp
    qed
  qed
qed

lemma findCreator_no_match:
  "\<forall>trx \<in> set txs. txTo trx = None \<longrightarrow>
      (\<exists>r. ethTransactionReceipt eth (txHash trx) = Inr r \<and> rcContractAddress r \<noteq> a) \<Longrightarrow>
   findCreator eth a chainID t txs = Inr (0, zeroTime)"
  by (induction txs) auto

text \<open>
  With \<^verbatim>\<open>UseArchiveNode\<close> set, on a chain whose head is below \<open>2^63\<close>, if every
  \<^verbatim>\<open>CodeAt\<close> call up to the head succeeds, code once present stays present, and a
  block \<open>b\<close> with \<open>1 \<le> b \<le> head\<close> has code while \<open>b - 1\<close> has none, then the binary search
  returns and selects \<open>b\<close>.  If moreover the block \<open>b\<close> and the network id are fetched
  and every contract-creating transaction of \<open>b\<close> has a receipt whose contract address
  is not the target, the function returns the zero address and the zero time without
  error.
\<close>

lemma findContractCreationInfo_finds:
  fixes head b :: "64 word"
  assumes "UseArchiveNode conf" and "ethBlockNumber eth = Inr head" and "unat head < 2 ^ 63"
    and "\<forall>m. m \<le> head \<longrightarrow> hasCode (ethCodeAt eth a) m \<or> noCode (ethCodeAt eth a) m"
    and "\<forall>m n. m \<le> n \<and> n \<le> head \<and> hasCode (ethCodeAt eth a) m \<longrightarrow> hasCode (ethCodeAt eth a) n"
    and "1 \<le> b" and "b \<le> head"
    and "hasCode (ethCodeAt eth a) b" and "noCode (ethCodeAt eth a) (b - 1)"
  shows "creationSearch (ethCodeAt eth a) 0 head 0 = Some (Inr b)
    \<and> (ethBlockByNumber eth b = Inr block \<and> ethNetworkID eth = Inr chainID
        \<and> (\<forall>trx \<in> set (blkTransactions block). txTo trx = None \<longrightarrow>
              (\<exists>r. ethTransactionReceipt eth (txHash trx) = Inr r \<and> rcContractAddress r \<noteq> a))
       \<longrightarrow> findContractCreationInfo eth conf a = Some (Inr (0, zeroTime)))"
proof -
  let ?codeAt = "ethCodeAt eth a"
  have calls: "\<And>m. m \<le> head \<Longrightarrow> hasCode ?codeAt m \<or> noCode ?codeAt m"
    using assms(4) by blast
  have mono: "\<And>m n. m \<le> n \<Longrightarrow> n \<le> head \<Longrightarrow> hasCode ?codeAt m \<Longrightarrow> hasCode ?codeAt n"
    using assms(5) by blast
  note b = assms(6-9)
  from b(1) have "b - 1 < b"
    by (simp add: word_less_nat_alt word_le_nat_alt unat_sub)
  with b(2) have b1: "b - 1 \<le> head" by simp
  have zero: "noCode ?codeAt 0"
  proof (rule ccontr)
    assume "\<not> noCode ?codeAt 0"
    with calls [of 0] have "hasCode ?codeAt 0" by simp
    with mono [of 0 "b - 1"] b1 have "hasCode ?codeAt (b - 1)" by simp
    with b(4) show False by (rule not_both)
  qed
  from mono [OF b(2) _ b(3)] have top: "hasCode ?codeAt head" by simp
  from zero top have "head \<noteq> 0" by (auto dest: not_both)
  then have pos: "0 < head" by (simp add: word_greater_zero_iff)
  have search: "creationSearch ?codeAt 0 head 0 = Some (Inr b)"
    by (rule creationSearch_finds [OF calls mono b assms(3) pos _ zero top]) simp_all
  show ?thesis
  proof (intro conjI impI)
    show "creationSearch ?codeAt 0 head 0 = Some (Inr b)" by (rule search)
  next
    assume rest: "ethBlockByNumber eth b = Inr block \<and> ethNetworkID eth = Inr chainID
        \<and> (\<forall>trx \<in> set (blkTransactions block). txTo trx = None \<longrightarrow>
              (\<exists>r. ethTransactionReceipt eth (txHash trx) = Inr r \<and> rcContractAddress r \<noteq> a))"
    then have "findCreator eth a chainID (sint (blkTime block)) (blkTransactions block)
        = Inr (0, zeroTime)"
      by (intro findCreator_no_match) simp
    with rest search assms(1,2) show "findContractCreationInfo eth conf a = Some (Inr (0, zeroTime))"
      by (simp add: findContractCreationInfo_def)
  qed
qed

text \<open>
  On the chain with the three transactions in block 50, where every contract has code
  from block 50 on and the head is block 200.  For the NFT contract of the example,
  which neither creation of the block has deployed, the search selects block 50, the
  scan passes over the call, fetches the receipts of the two creations, finds the
  target in neither and returns the zero values.  For the contract at \<open>0xAA02\<close> the
  scan stops at the second creation and returns its sender and the time of the block.
\<close>

lemma creationEth_code:
  "hasCode (ethCodeAt creationEth a) m \<longleftrightarrow> 50 \<le> m"
  "noCode (ethCodeAt creationEth a) m \<longleftrightarrow> \<not> 50 \<le> m"
  by (simp_all add: hasCode_def noCode_def creationEth_def exampleEth_def)

lemma creationEth_search:
  "creationSearch (ethCodeAt creationEth a) 0 200 0 = Some (Inr 50)"
proof -
  let ?conf = "defX2Y2Conf\<lparr>UseArchiveNode := True\<rparr>"
  have 1: "UseArchiveNode ?conf" by simp
  have 2: "ethBlockNumber creationEth = Inr 200" by (simp add: creationEth_def exampleEth_def)
  have 3: "unat (200 :: 64 word) < 2 ^ 63" by simp
  have 4: "\<forall>m. m \<le> (200 :: 64 word) \<longrightarrow>
      hasCode (ethCodeAt creationEth a) m \<or> noCode (ethCodeAt creationEth a) m"
    by (simp add: creationEth_code)
  have 5: "\<forall>m n. m \<le> n \<and> n \<le> (200 :: 64 word) \<and> hasCode (ethCodeAt creationEth a) m
      \<longrightarrow> hasCode (ethCodeAt creationEth a) n"
    by (auto simp: creationEth_code)
  have 6: "(1 :: 64 word) \<le> 50" and 7: "(50 :: 64 word) \<le> 200" by simp_all
  have 8: "hasCode (ethCodeAt creationEth a) 50" by (simp add: creationEth_code)
  have 9: "noCode (ethCodeAt creationEth a) (50 - 1)" by (simp add: creationEth_code)
  from findContractCreationInfo_finds [OF 1 2 3 4 5 6 7 8 9] show ?thesis by simp
qed

lemma creationEth_calls:
  "ethBlockNumber creationEth = Inr 200"
  "ethBlockByNumber creationEth 50 = Inr creationBlock"
  "ethNetworkID creationEth = Inr 1"
  by (simp_all add: creationEth_def exampleEth_def)

lemma findContractCreationInfo_no_creation:
  "findContractCreationInfo creationEth (defX2Y2Conf\<lparr>UseArchiveNode := True\<rparr>)
     0xBC4CA0EdA7647A8aB7C2061c2E118A18a936f13D = Some (Inr (0, zeroTime))"
proof -
  have "findCreator creationEth 0xBC4CA0EdA7647A8aB7C2061c2E118A18a936f13D 1
          (sint (blkTime creationBlock)) (blkTransactions creationBlock) = Inr (0, zeroTime)"
    by (simp add: creationEth_def exampleEth_def creationBlock_def)
  then show ?thesis
    by (simp add: findContractCreationInfo_def creationEth_calls creationEth_search)
qed

lemma findContractCreationInfo_creation:
  "findContractCreationInfo creationEth (defX2Y2Conf\<lparr>UseArchiveNode := True\<rparr>) 0xAA02
     = Some (Inr (0xC0FFEE, 1600000000))"
proof -
  have "findCreator creationEth 0xAA02 1
          (sint (blkTime creationBlock)) (blkTransactions creationBlock)
        = Inr (0xC0FFEE, 1600000000)"
    by (simp add: creationEth_def exampleEth_def creationBlock_def)
  then show ?thesis
    by (simp add: findContractCreationInfo_def creationEth_calls creationEth_search)
qed


end
